theory Spec2Isabelle
  imports Main
begin

section \<open>Python values: strings, exceptions, dictionaries\<close>

text \<open>
  A Python \<open>str\<close> is a sequence of Unicode code points. The greeting texts of the
  program hold emoji and Urdu script, so a string is modelled as the list of its code
  points; \<open>ascii\<close> embeds an ASCII literal.
\<close>

type_synonym str = "nat list"

definition ascii :: "string \<Rightarrow> str" where
  "ascii s = map of_char s"

text \<open>
  Exceptions are values. \<open>RequestException\<close> stands for the class
  \<open>requests.exceptions.RequestException\<close> and its subclasses, \<open>IOError\<close> for
  \<open>OSError\<close> and its subclasses, \<open>OtherException\<close> for every other subclass of
  \<open>Exception\<close>. Each carries the text that \<open>str(e)\<close> gives.
\<close>

datatype exn_class =
    ValueError | KeyError | IndexError | AttributeError | NameError
  | RequestException | IOError | OtherException

datatype exn = Exn exn_class str

fun exn_str :: "exn \<Rightarrow> str" where
  "exn_str (Exn c msg) = msg"

fun exn_class_of :: "exn \<Rightarrow> exn_class" where
  "exn_class_of (Exn c msg) = c"

text \<open>\<open>d.get(k, default)\<close> and \<open>d[k]\<close> on a dictionary.\<close>

definition dict_get :: "('k \<rightharpoonup> 'v) \<Rightarrow> 'k \<Rightarrow> 'v \<Rightarrow> 'v" where
  "dict_get d k dflt = (case d k of Some v \<Rightarrow> v | None \<Rightarrow> dflt)"

definition subscript :: "('k \<rightharpoonup> 'v) \<Rightarrow> 'k \<Rightarrow> exn + 'v" where
  "subscript d k = (case d k of Some v \<Rightarrow> Inr v | None \<Rightarrow> Inl (Exn KeyError []))"

text \<open>The slice \<open>s[a:b]\<close> for \<open>0 \<le> a \<le> b\<close>: it never raises, and is short at the end.\<close>

definition slice :: "nat \<Rightarrow> nat \<Rightarrow> 'a list \<Rightarrow> 'a list" where
  "slice a b s = take (b - a) (drop a s)"

text \<open>
  \<open>str.isspace\<close> for one code point, and \<open>str.strip()\<close>, which removes the white
  space at both ends.
\<close>

definition isspace :: "nat \<Rightarrow> bool" where
  "isspace c \<longleftrightarrow>
     (9 \<le> c \<and> c \<le> 13) \<or> (28 \<le> c \<and> c \<le> 32) \<or> c = 0x85 \<or> c = 0xA0 \<or> c = 0x1680 \<or>
     (0x2000 \<le> c \<and> c \<le> 0x200A) \<or> c = 0x2028 \<or> c = 0x2029 \<or> c = 0x202F \<or>
     c = 0x205F \<or> c = 0x3000"

definition strip :: "str \<Rightarrow> str" where
  "strip s = rev (dropWhile isspace (rev (dropWhile isspace s)))"

section \<open>tools.py: the theme catalog\<close>

definition themes :: "str \<rightharpoonup> (str \<rightharpoonup> str)" where
  "themes = map_of
     [(ascii ''Classic'', map_of
         [(ascii ''font_family'', [39] @ ascii ''Playfair Display'' @ [39] @ ascii '', serif''),
          (ascii ''color'', ascii ''#1a1a1a''),
          (ascii ''background'', ascii ''#ffffff'')]),
      (ascii ''Modern'', map_of
         [(ascii ''font_family'', [39] @ ascii ''Roboto'' @ [39] @ ascii '', sans-serif''),
          (ascii ''color'', ascii ''#333333''),
          (ascii ''background'', ascii ''#f5f5f5'')]),
      (ascii ''Elegant'', map_of
         [(ascii ''font_family'', [39] @ ascii ''Cormorant Garamond'' @ [39] @ ascii '', serif''),
          (ascii ''color'', ascii ''#2c3e50''),
          (ascii ''background'', ascii ''#ecf0f1'')])]"

text \<open>
  \<open>themes.get(theme, themes["Classic"])\<close>: the default argument is evaluated first, and
  would raise \<open>KeyError\<close> were the entry missing.
\<close>

definition style_card :: "str \<Rightarrow> exn + (str \<rightharpoonup> str)" where
  "style_card theme =
     (case subscript themes (ascii ''Classic'') of
        Inl e \<Rightarrow> Inl e
      | Inr dflt \<Rightarrow> Inr (dict_get themes theme dflt))"

section \<open>agents.py: the message composer\<close>

text \<open>
  What the composer does to the world: calls of the text-generation service, log lines,
  and (for the other components below) HTTP requests, sleeps and warnings of the UI.
\<close>

datatype event =
    Completion str
  | Http_get str
  | Sleep nat
  | Log_error str
  | Log_warning str
  | St_warning str

definition DEFAULT_MESSAGE :: str where
  "DEFAULT_MESSAGE =
     ascii ''\<newline>'' @
     ascii ''May this Eid bring you joy, peace, and prosperity! '' @ [0x1F319, 0x2728] @ ascii ''\<newline>'' @
     ascii ''Wishing you and your family a blessed celebration filled with love, laughter, and cherished moments together.\<newline>'' @
     ascii ''May Allah accept our prayers and grant us His infinite mercy. \<newline>'' @
     [0x639, 0x6CC, 0x62F] @ ascii '' '' @ [0x645, 0x628, 0x627, 0x631, 0x6A9] @ ascii ''\<newline>''"

definition EMOJI_SETS :: "str \<rightharpoonup> str list" where
  "EMOJI_SETS = map_of
     [(ascii ''funny'', [[0x1F604], [0x1F389], [0x1F38A], [0x1F973], [0x1F60A], [0x1F603], [0x1F917], [0x1F31F], [0x2728], [0x1F4AB]]),
      (ascii ''emotional'', [[0x2764, 0xFE0F], [0x1F917], [0x1F49D], [0x1F496], [0x1F31F], [0x1F495], [0x1F497], [0x2728], [0x1F4AB], [0x1F493]]),
      (ascii ''religious'', [[0x1F54C], [0x262A, 0xFE0F], [0x1F319], [0x2728], [0x1F932], [0x1F4FF], [0x1F31F], [0x1F4AB], [0x1F33A], [0x1F338]]),
      (ascii ''formal'', [[0x1F33A], [0x1F380], [0x2728], [0x1F4AB], [0x1F338], [0x1F339], [0x1F337], [0x1F397, 0xFE0F], [0x1F31F], [0x1F490]])]"

text \<open>
  The runtime and the world of the composer: the credential read from the environment, the
  text-generation service (under a credential, for a user prompt, it raises or answers
  with the \<open>content\<close> of each of its choices, which may be \<open>None\<close>), the random number
  generator (\<open>randbelow env i\<close> is the raw value of its \<open>i\<close>-th draw) and \<open>str.lower\<close>.
\<close>

record agent_env =
  openrouter_api_key :: "str option"
  completion :: "str \<Rightarrow> str \<Rightarrow> exn + str option list"
  randbelow :: "nat \<Rightarrow> nat"
  lower :: "str \<Rightarrow> str"

text \<open>
  \<open>random.sample(population, k)\<close> as CPython computes it for a population of at most
  21 elements: the \<open>i\<close>-th element is taken at a random position \<open>j\<close> of the pool, whose
  last live element then moves to \<open>j\<close>. It raises \<open>ValueError\<close> unless \<open>0 \<le> k \<le> n\<close>, so
  the pool is never empty at a draw.
\<close>

fun sample_pool :: "(nat \<Rightarrow> nat) \<Rightarrow> nat \<Rightarrow> 'a list \<Rightarrow> nat \<Rightarrow> 'a list" where
  "sample_pool rnd i pool 0 = []"
| "sample_pool rnd i [] (Suc k) = []"
| "sample_pool rnd i (p # ps) (Suc k) =
     (let pool = p # ps; j = rnd i mod length pool
      in pool ! j # sample_pool rnd (Suc i) (butlast (pool[j := last pool])) k)"

definition sample :: "(nat \<Rightarrow> nat) \<Rightarrow> 'a list \<Rightarrow> int \<Rightarrow> exn + 'a list" where
  "sample rnd population k =
     (if 0 \<le> k \<and> k \<le> int (length population)
      then Inr (sample_pool rnd 0 population (nat k))
      else Inl (Exn ValueError (ascii ''Sample larger than population or is negative'')))"

text \<open>\<open>sep.join(xs)\<close>.\<close>

fun join :: "str \<Rightarrow> str list \<Rightarrow> str" where
  "join sep [] = []"
| "join sep [x] = x"
| "join sep (x # y # ys) = x @ sep @ join sep (y # ys)"

text \<open>How an f-string prints a \<open>bool\<close>.\<close>

definition str_of_bool :: "bool \<Rightarrow> str" where
  "str_of_bool b = (if b then ascii ''True'' else ascii ''False'')"

text \<open>
  \<open>EidAgent._get_completion\<close>: the body of its \<open>try\<close>, where the call, \<open>choices[0]\<close>
  and \<open>content.strip()\<close> may each raise, and the handler around it.
\<close>

definition completion_try :: "agent_env \<Rightarrow> str \<Rightarrow> str \<Rightarrow> exn + str" where
  "completion_try env api_key prompt =
     (case completion env api_key prompt of
        Inl e \<Rightarrow> Inl e
      | Inr choices \<Rightarrow>
          (case choices of
             [] \<Rightarrow> Inl (Exn IndexError (ascii ''list index out of range''))
           | c # cs \<Rightarrow>
               (case c of
                  None \<Rightarrow> Inl (Exn AttributeError (ascii ''NoneType object has no attribute strip''))
                | Some content \<Rightarrow> Inr (strip content))))"

definition get_completion :: "agent_env \<Rightarrow> str \<Rightarrow> str \<Rightarrow> event list \<times> str" where
  "get_completion env api_key prompt =
     (case completion_try env api_key prompt of
        Inr text \<Rightarrow> ([Completion prompt], text)
      | Inl e \<Rightarrow>
          ([Completion prompt, Log_error (ascii ''Error getting completion: '' @ exn_str e)],
           DEFAULT_MESSAGE))"

definition greeting_prompt :: "str \<Rightarrow> str \<Rightarrow> bool \<Rightarrow> bool \<Rightarrow> str \<Rightarrow> str" where
  "greeting_prompt recipient tone include_hadith include_urdu sender =
     ascii ''\<newline>'' @
     ascii ''        Generate a heartfelt Eid greeting message for '' @ recipient @ ascii ''.\<newline>'' @
     ascii ''        \<newline>'' @
     ascii ''        Requirements:\<newline>'' @
     ascii ''        - Tone should be: '' @ tone @ ascii ''\<newline>'' @
     ascii ''        - Include Hadith: '' @ str_of_bool include_hadith @ ascii ''\<newline>'' @
     ascii ''        - Include Urdu: '' @ str_of_bool include_urdu @ ascii ''\<newline>'' @
     ascii ''        - Sender name: '' @ (if sender \<noteq> [] then sender else ascii ''Not specified'') @ ascii ''\<newline>'' @
     ascii ''        \<newline>'' @
     ascii ''        Guidelines:\<newline>'' @
     ascii ''        - Make it personal and warm\<newline>'' @
     ascii ''        - Keep it appropriate for the specified tone\<newline>'' @
     ascii ''        - If including Hadith, use a relevant one about Eid, celebration, or giving\<newline>'' @
     ascii ''        - If including Urdu, add '' @ [39] @ ascii ''Eid Mubarak'' @ [39] @ ascii '' in Urdu script ('' @ [0x639, 0x6CC, 0x62F] @ ascii '' '' @ [0x645, 0x628, 0x627, 0x631, 0x6A9] @ ascii '')\<newline>'' @
     ascii ''        - Length should be 2-3 paragraphs\<newline>'' @
     ascii ''        - Add appropriate line breaks for readability\<newline>'' @
     ascii ''        - Do not include any emojis in the response\<newline>'' @
     ascii ''        ''"

text \<open>
  \<open>EidAgent.generate_greeting\<close>. The glyph lines are added to whatever
  \<open>_get_completion\<close> returned.
\<close>

definition generate_greeting ::
  "agent_env \<Rightarrow> str \<Rightarrow> str \<Rightarrow> str \<Rightarrow> bool \<Rightarrow> bool \<Rightarrow> int \<Rightarrow> str \<Rightarrow> event list \<times> (exn + str)" where
  "generate_greeting env api_key recipient tone include_hadith include_urdu emoji_count sender =
     (let prompt = greeting_prompt recipient tone include_hadith include_urdu sender;
          (evs, response) = get_completion env api_key prompt
      in if emoji_count > 0 \<and> EMOJI_SETS tone \<noteq> None then
           (case subscript EMOJI_SETS tone of
              Inl e \<Rightarrow> (evs, Inl e)
            | Inr glyphs \<Rightarrow>
                (case sample (randbelow env) glyphs (min emoji_count (int (length glyphs))) of
                   Inl e \<Rightarrow> (evs, Inl e)
                 | Inr emojis \<Rightarrow>
                     (let emoji_str = join (ascii '' '') emojis
                      in (evs, Inr (emoji_str @ ascii ''\<newline>'' @ response @ ascii ''\<newline>'' @ emoji_str)))))
         else (evs, Inr response))"

definition theme_prompt :: "str \<Rightarrow> str \<Rightarrow> str" where
  "theme_prompt tone message =
     ascii ''\<newline>'' @
     ascii ''        Based on the following message tone and content, suggest the most appropriate theme\<newline>'' @
     ascii ''        from these options: classic, modern, elegant\<newline>'' @
     ascii ''        \<newline>'' @
     ascii ''        Tone: '' @ tone @ ascii ''\<newline>'' @
     ascii ''        Message: '' @ message @ ascii ''\<newline>'' @
     ascii ''        \<newline>'' @
     ascii ''        Reply with just the theme name in lowercase.\<newline>'' @
     ascii ''        ''"

definition suggest_theme :: "agent_env \<Rightarrow> str \<Rightarrow> str \<Rightarrow> str \<Rightarrow> event list \<times> str" where
  "suggest_theme env api_key tone message =
     (let (evs, text) = get_completion env api_key (theme_prompt tone message);
          theme = lower env (strip text)
      in (evs, if theme \<in> set [ascii ''classic'', ascii ''modern'', ascii ''elegant'']
               then theme else ascii ''classic''))"

text \<open>
  The preferences dictionary that \<open>generate_eid_message\<close> builds and
  \<open>MessageCraftAgent.craft_message\<close> reads with \<open>.get(key, default)\<close>: a field is
  \<open>None\<close> when the key is absent.
\<close>

record preferences =
  pref_include_hadith :: "bool option"
  pref_include_urdu :: "bool option"
  pref_include_emojis :: "bool option"
  pref_emoji_count :: "int option"
  pref_sender :: "str option"

definition opt_get :: "'a option \<Rightarrow> 'a \<Rightarrow> 'a" where
  "opt_get field dflt = (case field of Some v \<Rightarrow> v | None \<Rightarrow> dflt)"

definition craft_message ::
  "agent_env \<Rightarrow> str \<Rightarrow> str \<Rightarrow> str \<Rightarrow> preferences \<Rightarrow> event list \<times> (exn + str)" where
  "craft_message env api_key recipient tone prefs =
     generate_greeting env api_key recipient tone
       (opt_get (pref_include_hadith prefs) False)
       (opt_get (pref_include_urdu prefs) False)
       (if opt_get (pref_include_emojis prefs) True then opt_get (pref_emoji_count prefs) 2 else 0)
       (opt_get (pref_sender prefs) [])"

text \<open>
  \<open>generate_eid_message\<close>. \<open>not api_key\<close> holds for an unset variable and for an
  empty one.
\<close>

definition generate_eid_message ::
  "agent_env \<Rightarrow> str \<Rightarrow> str \<Rightarrow> str \<Rightarrow> bool \<Rightarrow> bool \<Rightarrow> bool \<Rightarrow> event list \<times> (exn + str)" where
  "generate_eid_message env recipient tone sender include_hadith include_urdu include_emojis =
     (case openrouter_api_key env of
        None \<Rightarrow> ([], Inr DEFAULT_MESSAGE)
      | Some api_key \<Rightarrow>
          if api_key = [] then ([], Inr DEFAULT_MESSAGE)
          else craft_message env api_key recipient tone
                 \<lparr>pref_include_hadith = Some include_hadith,
                  pref_include_urdu = Some include_urdu,
                  pref_include_emojis = Some include_emojis,
                  pref_emoji_count = Some (if include_emojis then 2 else 0),
                  pref_sender = Some sender\<rparr>)"

section \<open>utils/pdf_generator.py: preview and document\<close>

text \<open>\<open>s.replace(old, new)\<close> for a pattern \<open>old\<close> of one character.\<close>

definition replace_char :: "nat \<Rightarrow> str \<Rightarrow> str \<Rightarrow> str" where
  "replace_char old new s = concat (map (\<lambda>c. if c = old then new else [c]) s)"

text \<open>The f-string of \<open>create_preview\<close>, with its five fields as arguments.\<close>

definition html_template :: "str \<Rightarrow> str \<Rightarrow> str \<Rightarrow> str \<Rightarrow> str \<Rightarrow> str" where
  \<open>html_template bg_color text_color title_color recipient message_html =
     ascii ''\<newline>'' @
     ascii ''    <link href="https://fonts.googleapis.com/css2?family=Roboto:wght@400;700&display=swap" rel="stylesheet">\<newline>'' @
     ascii ''    <div style="\<newline>'' @
     ascii ''        max-width: 600px;\<newline>'' @
     ascii ''        margin: 20px auto;\<newline>'' @
     ascii ''        padding: 20px;\<newline>'' @
     ascii ''        border-radius: 10px;\<newline>'' @
     ascii ''        background-color: '' @ bg_color @ ascii '';\<newline>'' @
     ascii ''        color: '' @ text_color @ ascii '';\<newline>'' @
     ascii ''        font-family: '' @ [39] @ ascii ''Roboto'' @ [39] @ ascii '', sans-serif;\<newline>'' @
     ascii ''        box-shadow: 0 4px 6px rgba(0, 0, 0, 0.1);\<newline>'' @
     ascii ''    ">\<newline>'' @
     ascii ''        <h1 style="\<newline>'' @
     ascii ''            text-align: center;\<newline>'' @
     ascii ''            color: '' @ title_color @ ascii '';\<newline>'' @
     ascii ''            font-family: '' @ [39] @ ascii ''Roboto'' @ [39] @ ascii '', sans-serif;\<newline>'' @
     ascii ''            font-weight: 700;\<newline>'' @
     ascii ''        ">\<newline>'' @
     ascii ''            Eid Mubarak\<newline>'' @
     ascii ''        </h1>\<newline>'' @
     ascii ''        <h2 style="\<newline>'' @
     ascii ''            margin-top: 20px;\<newline>'' @
     ascii ''            font-family: '' @ [39] @ ascii ''Roboto'' @ [39] @ ascii '', sans-serif;\<newline>'' @
     ascii ''            font-weight: 700;\<newline>'' @
     ascii ''        ">Dear '' @ recipient @ ascii '',</h2>\<newline>'' @
     ascii ''        <div style="\<newline>'' @
     ascii ''            white-space: pre-wrap;\<newline>'' @
     ascii ''            line-height: 1.6;\<newline>'' @
     ascii ''            margin-top: 20px;\<newline>'' @
     ascii ''            font-family: '' @ [39] @ ascii ''Roboto'' @ [39] @ ascii '', sans-serif;\<newline>'' @
     ascii ''            font-weight: 400;\<newline>'' @
     ascii ''        ">\<newline>'' @
     ascii ''            '' @ message_html @ ascii ''\<newline>'' @
     ascii ''        </div>\<newline>'' @
     ascii ''    </div>\<newline>'' @
     ascii ''    ''\<close>

definition create_preview :: "str \<Rightarrow> str \<Rightarrow> (str \<rightharpoonup> str) \<Rightarrow> str" where
  "create_preview message recipient theme =
     (let message_html = replace_char 10 (ascii ''<br>'') message
      in html_template
           (dict_get theme (ascii ''bg_color'') (ascii ''#ffffff''))
           (dict_get theme (ascii ''text_color'') (ascii ''#000000''))
           (dict_get theme (ascii ''title_color'') (ascii ''#4a4a4a''))
           recipient message_html)"

text \<open>
  \<open>int(s, 16)\<close>: white space at both ends is dropped, then come an optional sign, an
  optional prefix \<open>0x\<close> (one underscore may follow it) and hexadecimal digits, with
  single underscores between digits only. Anything else raises \<open>ValueError\<close>. On a
  character outside ASCII the model raises, but for white space (Python also reads the
  decimal digits of other scripts, which no colour code holds).
\<close>

definition hex_digit :: "nat \<Rightarrow> int option" where
  "hex_digit c =
     (if 48 \<le> c \<and> c \<le> 57 then Some (int c - 48)
      else if 97 \<le> c \<and> c \<le> 102 then Some (int c - 87)
      else if 65 \<le> c \<and> c \<le> 70 then Some (int c - 55)
      else None)"

fun hex_digits :: "bool \<Rightarrow> int \<Rightarrow> str \<Rightarrow> int option" where
  "hex_digits after_digit acc [] = (if after_digit then Some acc else None)"
| "hex_digits after_digit acc (c # cs) =
     (if c = 95 then (if after_digit then hex_digits False acc cs else None)
      else case hex_digit c of
             None \<Rightarrow> None
           | Some d \<Rightarrow> hex_digits True (16 * acc + d) cs)"

definition int_space :: "nat \<Rightarrow> bool" where
  "int_space c \<longleftrightarrow> c = 32 \<or> (9 \<le> c \<and> c \<le> 13) \<or> (127 \<le> c \<and> isspace c)"

definition py_int16 :: "str \<Rightarrow> exn + int" where
  "py_int16 s =
     (let t = rev (dropWhile int_space (rev (dropWhile int_space s)));
          (sign, u) = (case t of
                         c # cs \<Rightarrow> if c = 43 then (1, cs) else if c = 45 then (- 1, cs) else (1, t)
                       | [] \<Rightarrow> (1, t));
          v = (case u of
                 a # b # cs \<Rightarrow>
                   if a = 48 \<and> (b = 120 \<or> b = 88)
                   then (case cs of d # ds \<Rightarrow> if d = 95 then ds else cs | [] \<Rightarrow> cs)
                   else u
               | _ \<Rightarrow> u)
      in case hex_digits False 0 v of
           None \<Rightarrow> Inl (Exn ValueError (ascii ''invalid literal for int() with base 16''))
         | Some n \<Rightarrow> Inr (sign * n))"

text \<open>
  The three arguments \<open>int(c[1:3], 16), int(c[3:5], 16), int(c[5:7], 16)\<close> that the
  renderer passes to \<open>set_text_color\<close>, evaluated from left to right.
\<close>

definition hex_color :: "str \<Rightarrow> exn + (int \<times> int \<times> int)" where
  "hex_color c =
     (case py_int16 (slice 1 3 c) of
        Inl e \<Rightarrow> Inl e
      | Inr r \<Rightarrow>
          (case py_int16 (slice 3 5 c) of
             Inl e \<Rightarrow> Inl e
           | Inr g \<Rightarrow>
               (case py_int16 (slice 5 7 c) of
                  Inl e \<Rightarrow> Inl e
                | Inr b \<Rightarrow> Inr (r, g, b))))"

definition title_color :: "(str \<rightharpoonup> str) \<Rightarrow> exn + (int \<times> int \<times> int)" where
  "title_color theme = hex_color (dict_get theme (ascii ''title_color'') (ascii ''#4a4a4a''))"

definition text_color :: "(str \<rightharpoonup> str) \<Rightarrow> exn + (int \<times> int \<times> int)" where
  "text_color theme = hex_color (dict_get theme (ascii ''text_color'') (ascii ''#000000''))"

text \<open>\<open>remove_emojis\<close>: every character in one of the six ranges of the pattern goes.\<close>

definition emoji_pattern :: "nat \<Rightarrow> bool" where
  "emoji_pattern c \<longleftrightarrow>
     (0x1F600 \<le> c \<and> c \<le> 0x1F64F) \<or> (0x1F300 \<le> c \<and> c \<le> 0x1F5FF) \<or>
     (0x1F680 \<le> c \<and> c \<le> 0x1F6FF) \<or> (0x1F1E0 \<le> c \<and> c \<le> 0x1F1FF) \<or>
     (0x2702 \<le> c \<and> c \<le> 0x27B0) \<or> (0x24C2 \<le> c \<and> c \<le> 0x1F251)"

definition remove_emojis :: "str \<Rightarrow> str" where
  "remove_emojis text = filter (\<lambda>c. \<not> emoji_pattern c) text"

text \<open>
  The document library (FPDF) is outside the program. A document is the list of the
  layout calls the program made on it (positions and widths, which are floating point,
  are left out), and the library is given by what can go wrong in it: the font setup of
  \<open>EidCard.__init__\<close>, any layout call on the document so far, the computation of
  the wrapped lines (\<open>chars_per_line\<close> and \<open>textwrap.wrap\<close>), the creation of the
  temporary file and the serialization \<open>pdf.output\<close>.
\<close>

datatype pdf_op =
    Set_font str str nat
  | Set_text_color int int int
  | Cell str
  | Multi_cell str
  | Ln nat

record pdf_lib =
  font_setup :: "exn option"
  draw :: "pdf_op list \<Rightarrow> pdf_op \<Rightarrow> exn option"
  wrap :: "str \<Rightarrow> exn + str list"
  temp_file :: "exn + str"
  pdf_output :: "pdf_op list \<Rightarrow> str \<Rightarrow> exn option"

definition call :: "pdf_lib \<Rightarrow> pdf_op \<Rightarrow> pdf_op list \<Rightarrow> exn + pdf_op list" where
  "call lib op doc = (case draw lib doc op of Some e \<Rightarrow> Inl e | None \<Rightarrow> Inr (doc @ [op]))"

fun calls :: "pdf_lib \<Rightarrow> pdf_op list \<Rightarrow> pdf_op list \<Rightarrow> exn + pdf_op list" where
  "calls lib [] doc = Inr doc"
| "calls lib (op # ops) doc =
     (case call lib op doc of Inl e \<Rightarrow> Inl e | Inr doc' \<Rightarrow> calls lib ops doc')"

text \<open>
  \<open>EidCard.__init__\<close>: \<open>get_font_path('roboto')\<close> returns a non-empty path whether or
  not the download worked, so the font is always Roboto and the Helvetica branch is dead.
\<close>

definition EidCard_init :: "pdf_lib \<Rightarrow> exn + pdf_op list" where
  "EidCard_init lib = (case font_setup lib of Some e \<Rightarrow> Inl e | None \<Rightarrow> Inr [])"

definition default_font :: str where
  "default_font = ascii ''Roboto''"

text \<open>\<open>EidCard.header\<close>, which \<open>add_page\<close> calls on the new page.\<close>

definition header :: "pdf_lib \<Rightarrow> (str \<rightharpoonup> str) \<Rightarrow> pdf_op list \<Rightarrow> exn + pdf_op list" where
  "header lib theme doc =
     (case call lib (Set_font default_font (ascii ''B'') 24) doc of
        Inl e \<Rightarrow> Inl e
      | Inr doc1 \<Rightarrow>
          (case title_color theme of
             Inl e \<Rightarrow> Inl e
           | Inr (r, g, b) \<Rightarrow>
               calls lib [Set_text_color r g b, Cell (ascii ''Eid Mubarak''), Ln 10] doc1))"

definition add_page :: "pdf_lib \<Rightarrow> (str \<rightharpoonup> str) \<Rightarrow> pdf_op list \<Rightarrow> exn + pdf_op list" where
  "add_page lib theme doc = header lib theme doc"

text \<open>\<open>create_pdf\<close> up to the word-wrapped message: nothing here is inside a \<open>try\<close>.\<close>

definition layout :: "pdf_lib \<Rightarrow> str \<Rightarrow> str \<Rightarrow> (str \<rightharpoonup> str) \<Rightarrow> exn + pdf_op list" where
  "layout lib message recipient theme =
     (case EidCard_init lib of
        Inl e \<Rightarrow> Inl e
      | Inr doc0 \<Rightarrow>
     (case add_page lib theme doc0 of
        Inl e \<Rightarrow> Inl e
      | Inr doc1 \<Rightarrow>
     (case text_color theme of
        Inl e \<Rightarrow> Inl e
      | Inr (r, g, b) \<Rightarrow>
     (case call lib (Set_text_color r g b) doc1 of
        Inl e \<Rightarrow> Inl e
      | Inr doc2 \<Rightarrow>
     (let clean_message = remove_emojis message;
          clean_recipient = remove_emojis recipient
      in case calls lib
                [Set_font default_font (ascii ''B'') 16,
                 Cell (ascii ''Dear '' @ clean_recipient @ ascii '',''),
                 Ln 10,
                 Set_font default_font [] 12] doc2 of
           Inl e \<Rightarrow> Inl e
         | Inr doc3 \<Rightarrow>
        (case wrap lib clean_message of
           Inl e \<Rightarrow> Inl e
         | Inr lines \<Rightarrow>
             calls lib (concat (map (\<lambda>line. [Multi_cell line, Ln 2]) lines)) doc3))))))"

text \<open>The handler of \<open>create_pdf\<close>: a new card with the fixed heading and sentence.\<close>

definition fallback_layout :: "pdf_lib \<Rightarrow> (str \<rightharpoonup> str) \<Rightarrow> exn + pdf_op list" where
  "fallback_layout lib theme =
     (case EidCard_init lib of
        Inl e \<Rightarrow> Inl e
      | Inr doc0 \<Rightarrow>
     (case add_page lib theme doc0 of
        Inl e \<Rightarrow> Inl e
      | Inr doc1 \<Rightarrow>
          calls lib
            [Set_font default_font (ascii ''B'') 24,
             Cell (ascii ''Eid Mubarak''),
             Ln 10,
             Set_font default_font [] 12,
             Multi_cell (ascii ''May this Eid bring you joy and happiness.\<newline>'' @
                         ascii ''Best wishes to you and your family.'')] doc1))"

text \<open>
  \<open>create_pdf\<close>. Only the first \<open>pdf.output(output_path)\<close> stands in the \<open>try\<close>; the
  handler's own steps, its \<open>pdf.output\<close> included, are unguarded. The result is the path
  and the document written there.
\<close>

definition create_pdf ::
  "pdf_lib \<Rightarrow> str \<Rightarrow> str \<Rightarrow> (str \<rightharpoonup> str) \<Rightarrow> str option \<Rightarrow> exn + (str \<times> pdf_op list)" where
  "create_pdf lib message recipient theme output_path =
     (case layout lib message recipient theme of
        Inl e \<Rightarrow> Inl e
      | Inr doc \<Rightarrow>
     (case (case output_path of
              None \<Rightarrow> temp_file lib
            | Some p \<Rightarrow> if p = [] then temp_file lib else Inr p) of
        Inl e \<Rightarrow> Inl e
      | Inr path \<Rightarrow>
     (case pdf_output lib doc path of
        None \<Rightarrow> Inr (path, doc)
      | Some e \<Rightarrow>
     (case fallback_layout lib theme of
        Inl e' \<Rightarrow> Inl e'
      | Inr doc' \<Rightarrow>
     (case pdf_output lib doc' path of
        None \<Rightarrow> Inr (path, doc')
      | Some e' \<Rightarrow> Inl e')))))"

text \<open>
  For stating what \<open>create_pdf\<close> writes: the layout calls of the full document, for
  the title colour, the text colour, the cleaned recipient and the wrapped lines of the
  cleaned message, and those of the minimal document of the handler.
\<close>

definition full_document ::
  "int \<times> int \<times> int \<Rightarrow> int \<times> int \<times> int \<Rightarrow> str \<Rightarrow> str list \<Rightarrow> pdf_op list" where
  "full_document title_rgb text_rgb clean_recipient lines =
     (case (title_rgb, text_rgb) of
        ((tr, tg, tb), (xr, xg, xb)) \<Rightarrow>
          [Set_font (ascii ''Roboto'') (ascii ''B'') 24,
           Set_text_color tr tg tb,
           Cell (ascii ''Eid Mubarak''),
           Ln 10,
           Set_text_color xr xg xb,
           Set_font (ascii ''Roboto'') (ascii ''B'') 16,
           Cell (ascii ''Dear '' @ clean_recipient @ ascii '',''),
           Ln 10,
           Set_font (ascii ''Roboto'') [] 12]
          @ concat (map (\<lambda>line. [Multi_cell line, Ln 2]) lines))"

definition minimal_document :: "int \<times> int \<times> int \<Rightarrow> pdf_op list" where
  "minimal_document title_rgb =
     (case title_rgb of
        (tr, tg, tb) \<Rightarrow>
          [Set_font (ascii ''Roboto'') (ascii ''B'') 24,
           Set_text_color tr tg tb,
           Cell (ascii ''Eid Mubarak''),
           Ln 10,
           Set_font (ascii ''Roboto'') (ascii ''B'') 24,
           Cell (ascii ''Eid Mubarak''),
           Ln 10,
           Set_font (ascii ''Roboto'') [] 12,
           Multi_cell (ascii ''May this Eid bring you joy and happiness.\<newline>'' @
                       ascii ''Best wishes to you and your family.'')])"

definition output_path_or :: "str option \<Rightarrow> str \<Rightarrow> str" where
  "output_path_or output_path tmp =
     (case output_path of None \<Rightarrow> tmp | Some p \<Rightarrow> if p = [] then tmp else p)"

section \<open>utils/image_utils.py: the background resolver\<close>

definition SEARCH_TERMS :: "str \<rightharpoonup> str list" where
  "SEARCH_TERMS = map_of
     [(ascii ''Eid Moon & Stars'',
         [ascii ''crescent moon night'', ascii ''eid moon'', ascii ''ramadan moon stars'', ascii ''night sky mosque'']),
      (ascii ''Mosque Architecture'',
         [ascii ''grand mosque'', ascii ''islamic architecture'', ascii ''beautiful mosque'', ascii ''mosque interior'']),
      (ascii ''Islamic Patterns'',
         [ascii ''islamic pattern'', ascii ''arabic pattern'', ascii ''islamic geometric'', ascii ''islamic art'']),
      (ascii ''Eid Celebration'',
         [ascii ''eid celebration'', ascii ''eid decoration'', ascii ''eid festival'', ascii ''eid lights'']),
      (ascii ''Lanterns & Lights'',
         [ascii ''ramadan lanterns'', ascii ''islamic lanterns'', ascii ''moroccan lamps'', ascii ''oriental lights'']),
      (ascii ''Calligraphy Art'',
         [ascii ''islamic calligraphy'', ascii ''arabic calligraphy'', ascii ''islamic art'', ascii ''arabic script art'']),
      (ascii ''Geometric Patterns'',
         [ascii ''geometric pattern'', ascii ''moroccan pattern'', ascii ''islamic geometry'', ascii ''arabesque pattern'']),
      (ascii ''Nature & Flowers'',
         [ascii ''islamic garden'', ascii ''arabic floral'', ascii ''islamic floral'', ascii ''moroccan garden''])]"

definition fallback_categories :: "str list" where
  "fallback_categories = [ascii ''Islamic Patterns'', ascii ''Geometric Patterns'', ascii ''Nature & Flowers'']"

text \<open>
  A photo record of the search response, with the fields the resolver reads
  (\<open>p["width"]\<close>, \<open>p["height"]\<close>, \<open>p["src"]["large2x"]\<close>), and the response body, whose
  keys \<open>total_results\<close> and \<open>photos\<close> are read with \<open>.get\<close> and may be absent.
\<close>

record photo =
  width :: int
  height :: int
  large2x :: str

record search_data =
  total_results :: "int option"
  photos :: "photo list option"

text \<open>
  The world of the resolver: the credential of the environment, the search service
  (\<open>search env n q\<close> is what the \<open>n\<close>-th request of a call, for the query \<open>q\<close>, gives:
  an exception from \<open>requests.get\<close>, \<open>raise_for_status\<close> or \<open>json\<close>, or the body) and
  the raw value the random number generator draws for \<open>random.choice\<close>.
\<close>

record pexels_env =
  pexels_api_key :: "str option"
  search :: "nat \<Rightarrow> str \<Rightarrow> exn + search_data"
  choice_draw :: nat

definition random_choice :: "nat \<Rightarrow> 'a list \<Rightarrow> exn + 'a" where
  "random_choice r xs =
     (if xs = [] then Inl (Exn IndexError (ascii ''Cannot choose from an empty sequence''))
      else Inr (xs ! (r mod length xs)))"

text \<open>
  The loop over the search terms of the category. \<open>Inr (Some url)\<close> is a \<open>return\<close>,
  \<open>Inr None\<close> the end of the loop, \<open>Inl e\<close> an exception on its way to the handler.
\<close>

fun primary_loop :: "pexels_env \<Rightarrow> nat \<Rightarrow> str list \<Rightarrow> event list \<times> (exn + str option)" where
  "primary_loop env n [] = ([], Inr None)"
| "primary_loop env n (search_term # rest) =
     (case search env n search_term of
        Inl e \<Rightarrow> ([Http_get search_term], Inl e)
      | Inr data \<Rightarrow>
          (let continue = (let (evs, r) = primary_loop env (Suc n) rest
                           in (Http_get search_term # evs, r));
               found = opt_get (photos data) [];
               quality_photos = filter (\<lambda>p. width p \<ge> 1200 \<and> height p \<ge> 800) found
           in if opt_get (total_results data) 0 > 0 then
                if found \<noteq> [] then
                  if quality_photos \<noteq> [] then
                    (case random_choice (choice_draw env) quality_photos of
                       Inl e \<Rightarrow> ([Http_get search_term], Inl e)
                     | Inr chosen_photo \<Rightarrow> ([Http_get search_term], Inr (Some (large2x chosen_photo))))
                  else continue
                else continue
              else continue))"

text \<open>The two nested loops over the fallback categories and their search terms.\<close>

fun fallback_terms :: "pexels_env \<Rightarrow> nat \<Rightarrow> str list \<Rightarrow> event list \<times> (exn + str option)" where
  "fallback_terms env n [] = ([], Inr None)"
| "fallback_terms env n (search_term # rest) =
     (case search env n search_term of
        Inl e \<Rightarrow> ([Http_get search_term], Inl e)
      | Inr data \<Rightarrow>
          (let continue = (let (evs, r) = fallback_terms env (Suc n) rest
                           in (Http_get search_term # evs, r));
               found = opt_get (photos data) []
           in if opt_get (total_results data) 0 > 0 then
                if found \<noteq> [] then
                  (case random_choice (choice_draw env) found of
                     Inl e \<Rightarrow> ([Http_get search_term], Inl e)
                   | Inr chosen_photo \<Rightarrow> ([Http_get search_term], Inr (Some (large2x chosen_photo))))
                else continue
              else continue))"

fun fallback_loop :: "pexels_env \<Rightarrow> nat \<Rightarrow> str list \<Rightarrow> event list \<times> (exn + str option)" where
  "fallback_loop env n [] = ([], Inr None)"
| "fallback_loop env n (category # rest) =
     (case subscript SEARCH_TERMS category of
        Inl e \<Rightarrow> ([], Inl e)
      | Inr terms \<Rightarrow>
          (case fallback_terms env n terms of
             (evs, Inr None) \<Rightarrow>
               (let (evs', r) = fallback_loop env (n + length evs) rest in (evs @ evs', r))
           | (evs, r) \<Rightarrow> (evs, r)))"

text \<open>
  The body of the \<open>try\<close> of \<open>get_pexels_image\<close>. The fallback loop writes to
  \<open>params\<close>, which the first loop binds in its body: after a first loop over no term it
  would raise \<open>NameError\<close>.
\<close>

definition get_pexels_image_try :: "pexels_env \<Rightarrow> str \<Rightarrow> event list \<times> (exn + str option)" where
  "get_pexels_image_try env category =
     (let no_key = ([Log_error (ascii ''PEXELS_API_KEY not found in environment variables'')], Inr None);
          with_key =
            (case subscript SEARCH_TERMS (ascii ''Islamic Patterns'') of
               Inl e \<Rightarrow> ([], Inl e)
             | Inr dflt \<Rightarrow>
                 (let search_terms = dict_get SEARCH_TERMS category dflt
                  in case primary_loop env 0 search_terms of
                       (evs, Inr None) \<Rightarrow>
                         if search_terms = [] then (evs, Inl (Exn NameError (ascii ''params'')))
                         else (case fallback_loop env (length evs) fallback_categories of
                                 (evs', Inr None) \<Rightarrow>
                                   (evs @ evs' @
                                    [Log_warning (ascii ''No images found on Pexels for any search terms'')],
                                    Inr None)
                               | (evs', r) \<Rightarrow> (evs @ evs', r))
                     | (evs, r) \<Rightarrow> (evs, r)))
      in case pexels_api_key env of
           None \<Rightarrow> no_key
         | Some api_key \<Rightarrow> if api_key = [] then no_key else with_key)"

text \<open>\<open>get_pexels_image\<close> of image_utils, with its handler \<open>except Exception\<close>.\<close>

definition get_pexels_image :: "pexels_env \<Rightarrow> str \<Rightarrow> event list \<times> (exn + str option)" where
  "get_pexels_image env category =
     (case get_pexels_image_try env category of
        (evs, Inl e) \<Rightarrow>
          (evs @ [Log_error (ascii ''Error fetching image from Pexels: '' @ exn_str e)], Inr None)
      | (evs, Inr r) \<Rightarrow> (evs, Inr r))"

subsection \<open>Notions for stating what the resolver returns\<close>

text \<open>
  The photos one response offers: in the loop over the category's own search terms, those
  that pass the dimension filter; in the fallback loops, all of them. In both, none
  unless \<open>total_results\<close> is positive.
\<close>

definition primary_candidates :: "search_data \<Rightarrow> photo list" where
  "primary_candidates data =
     (if opt_get (total_results data) 0 > 0
      then filter (\<lambda>p. width p \<ge> 1200 \<and> height p \<ge> 800) (opt_get (photos data) [])
      else [])"

definition fallback_candidates :: "search_data \<Rightarrow> photo list" where
  "fallback_candidates data =
     (if opt_get (total_results data) 0 > 0 then opt_get (photos data) [] else [])"

text \<open>
  The common shape of the loops: request term after term, and stop at the first response
  that raises or offers a candidate.
\<close>

fun scan ::
  "(search_data \<Rightarrow> photo list) \<Rightarrow> pexels_env \<Rightarrow> nat \<Rightarrow> str list \<Rightarrow> event list \<times> (exn + str option)" where
  "scan cand env n [] = ([], Inr None)"
| "scan cand env n (t # ts) =
     (case search env n t of
        Inl e \<Rightarrow> ([Http_get t], Inl e)
      | Inr data \<Rightarrow>
          if cand data \<noteq> []
          then ([Http_get t],
                Inr (Some (large2x (cand data ! (choice_draw env mod length (cand data))))))
          else (let (evs, r) = scan cand env (Suc n) ts in (Http_get t # evs, r)))"

text \<open>
  The search terms of a category, the terms of the fallback categories in order, and
  "the \<open>i\<close>-th of the requests that start at number \<open>n\<close> is answered, with no candidate".
\<close>

definition search_terms :: "str \<Rightarrow> str list" where
  "search_terms category =
     dict_get SEARCH_TERMS category
       [ascii ''islamic pattern'', ascii ''arabic pattern'', ascii ''islamic geometric'', ascii ''islamic art'']"

definition fallback_queries :: "str list" where
  "fallback_queries = concat (map (\<lambda>c. dict_get SEARCH_TERMS c []) fallback_categories)"

definition unusable ::
  "(search_data \<Rightarrow> photo list) \<Rightarrow> pexels_env \<Rightarrow> nat \<Rightarrow> str list \<Rightarrow> nat \<Rightarrow> bool" where
  "unusable cand env n ts i \<longleftrightarrow>
     (case search env (n + i) (ts ! i) of Inl e \<Rightarrow> False | Inr data \<Rightarrow> cand data = [])"

text \<open>
  Of the requests for the terms \<open>ts\<close> that start at number \<open>n\<close>: all are answered
  with no candidate; the \<open>m\<close>-th is the first not so, and offers candidates in its body
  \<open>d\<close>; the \<open>m\<close>-th is the first not so, and raises \<open>e\<close>.
\<close>

definition all_unusable ::
  "(search_data \<Rightarrow> photo list) \<Rightarrow> pexels_env \<Rightarrow> nat \<Rightarrow> str list \<Rightarrow> bool" where
  "all_unusable cand env n ts \<longleftrightarrow> list_all (unusable cand env n ts) [0..<length ts]"

definition first_offer ::
  "(search_data \<Rightarrow> photo list) \<Rightarrow> pexels_env \<Rightarrow> nat \<Rightarrow> str list \<Rightarrow> nat \<Rightarrow> search_data \<Rightarrow> bool" where
  "first_offer cand env n ts m d \<longleftrightarrow>
     m < length ts \<and> list_all (unusable cand env n ts) [0..<m] \<and>
     search env (n + m) (ts ! m) = Inr d \<and> cand d \<noteq> []"

definition first_raise ::
  "(search_data \<Rightarrow> photo list) \<Rightarrow> pexels_env \<Rightarrow> nat \<Rightarrow> str list \<Rightarrow> nat \<Rightarrow> exn \<Rightarrow> bool" where
  "first_raise cand env n ts m e \<longleftrightarrow>
     m < length ts \<and> list_all (unusable cand env n ts) [0..<m] \<and>
     search env (n + m) (ts ! m) = Inl e"

definition no_credential :: "pexels_env \<Rightarrow> bool" where
  "no_credential env \<longleftrightarrow> pexels_api_key env = None \<or> pexels_api_key env = Some []"

section \<open>utils/__init__.py: the resolver the UI imports\<close>

text \<open>
  The loop \<open>for attempt in range(max_retries)\<close>; only a \<open>RequestException\<close> is caught.
  After the loop comes \<open>return None\<close>.
\<close>

fun attempts :: "pexels_env \<Rightarrow> str \<Rightarrow> int \<Rightarrow> nat list \<Rightarrow> event list \<times> (exn + str option)" where
  "attempts env query max_retries [] = ([], Inr None)"
| "attempts env query max_retries (attempt # rest) =
     (case search env attempt query of
        Inl e \<Rightarrow>
          if exn_class_of e = RequestException then
            if int attempt = max_retries - 1 then ([Http_get query], Inl e)
            else (let (evs, r) = attempts env query max_retries rest
                  in (Http_get query # Sleep 1 # evs, r))
          else ([Http_get query], Inl e)
      | Inr data \<Rightarrow>
          (case photos data of
             None \<Rightarrow> ([Http_get query], Inr None)
           | Some found \<Rightarrow>
               if found = [] then ([Http_get query], Inr None)
               else (case random_choice (choice_draw env) found of
                       Inl e \<Rightarrow> ([Http_get query], Inl e)
                     | Inr photo \<Rightarrow> ([Http_get query], Inr (Some (large2x photo))))))"

text \<open>
  \<open>get_pexels_image(query, api_key=None, max_retries=3)\<close> of the package \<open>utils\<close>:
  \<open>api_key or os.getenv('PEXELS_API_KEY')\<close>, then \<open>ValueError\<close> without a key.
\<close>

definition utils_get_pexels_image ::
  "pexels_env \<Rightarrow> str \<Rightarrow> str option \<Rightarrow> int \<Rightarrow> event list \<times> (exn + str option)" where
  "utils_get_pexels_image env query api_key max_retries =
     (let key = (case api_key of
                   None \<Rightarrow> pexels_api_key env
                 | Some k \<Rightarrow> if k = [] then pexels_api_key env else Some k)
      in if key = None \<or> key = Some [] then
           ([], Inl (Exn ValueError
              (ascii ''Pexels API key not found. Please set PEXELS_API_KEY in your .env file'')))
         else attempts env query max_retries [0..<nat max_retries])"

text \<open>
  For stating its properties: no key reaches the function, and "the request of attempt
  \<open>i\<close> raises a \<open>RequestException\<close>".
\<close>

definition no_key :: "pexels_env \<Rightarrow> str option \<Rightarrow> bool" where
  "no_key env api_key \<longleftrightarrow> (api_key = None \<or> api_key = Some []) \<and> no_credential env"

definition transport_failure :: "pexels_env \<Rightarrow> str \<Rightarrow> nat \<Rightarrow> bool" where
  "transport_failure env query i \<longleftrightarrow>
     (case search env i query of Inl e \<Rightarrow> exn_class_of e = RequestException | Inr d \<Rightarrow> False)"

section \<open>main.py: the background image of the document\<close>

text \<open>
  A PIL image is given by the call that made it: \<open>Image.open\<close> on downloaded bytes, or
  \<open>Image.new(mode, size, color)\<close>.
\<close>

datatype image =
    Image_open "nat list"
  | Image_new str "nat \<times> nat" "nat \<times> nat \<times> nat"

text \<open>
  The retry loop of \<open>create_pdf_card\<close>. \<open>download attempt url\<close> is the body of the
  \<open>try\<close> at that attempt: the request, \<open>raise_for_status\<close>, the chunks and
  \<open>Image.open\<close>, which give the bytes of an image or raise. \<open>bg_image\<close> is unbound
  (\<open>None\<close>) until a branch assigns it.
\<close>

definition max_retries :: int where
  "max_retries = 3"

definition retry_delay :: nat where
  "retry_delay = 1"

fun retry_loop ::
  "(nat \<Rightarrow> str \<Rightarrow> exn + nat list) \<Rightarrow> str \<Rightarrow> nat list \<Rightarrow> image option \<Rightarrow> event list \<times> (exn + image option)" where
  "retry_loop download url [] bg_image = ([], Inr bg_image)"
| "retry_loop download url (attempt # rest) bg_image =
     (case download attempt url of
        Inr image_data \<Rightarrow> ([Http_get url], Inr (Some (Image_open image_data)))
      | Inl e \<Rightarrow>
          if exn_class_of e = RequestException \<or> exn_class_of e = IOError then
            if int attempt = max_retries - 1 then
              (let (evs, r) = retry_loop download url rest
                                (Some (Image_new (ascii ''RGB'') (2100, 2970) (255, 255, 255)))
               in (Http_get url #
                   St_warning (ascii ''Could not load background image. Using solid background instead. Error: ''
                               @ exn_str e) # evs, r))
            else (let (evs, r) = retry_loop download url rest bg_image
                  in (Http_get url # Sleep retry_delay # evs, r))
          else ([Http_get url], Inl e))"

text \<open>
  The loop as \<open>create_pdf_card\<close> runs it, up to the first use of \<open>bg_image\<close> after it
  (\<open>NameError\<close> were it unbound).
\<close>

definition background_image ::
  "(nat \<Rightarrow> str \<Rightarrow> exn + nat list) \<Rightarrow> str \<Rightarrow> event list \<times> (exn + image)" where
  "background_image download url =
     (case retry_loop download url [0..<nat max_retries] None of
        (evs, Inl e) \<Rightarrow> (evs, Inl e)
      | (evs, Inr None) \<Rightarrow> (evs, Inl (Exn NameError (ascii ''bg_image'')))
      | (evs, Inr (Some bg_image)) \<Rightarrow> (evs, Inr bg_image))"

text \<open>
  For stating its properties: "the download of attempt \<open>i\<close> fails", that is, raises an
  exception the loop catches.
\<close>

definition download_fails :: "(nat \<Rightarrow> str \<Rightarrow> exn + nat list) \<Rightarrow> str \<Rightarrow> nat \<Rightarrow> bool" where
  "download_fails download url i \<longleftrightarrow>
     (case download i url of
        Inl e \<Rightarrow> exn_class_of e = RequestException \<or> exn_class_of e = IOError
      | Inr image_data \<Rightarrow> False)"

section \<open>Lemmas on strings\<close>

lemma ascii_eq_iff: "ascii s = ascii t \<longleftrightarrow> s = t"
  by (simp add: ascii_def inj_on_def)

section \<open>The theme catalog\<close>

lemma subscript_Classic:
  "subscript themes (ascii ''Classic'') = Inr (map_of
         [(ascii ''font_family'', [39] @ ascii ''Playfair Display'' @ [39] @ ascii '', serif''),
          (ascii ''color'', ascii ''#1a1a1a''),
          (ascii ''background'', ascii ''#ffffff'')])"
  by (simp add: subscript_def themes_def)

lemma themes_unrecognized:
  assumes "theme \<noteq> ascii ''Classic''" "theme \<noteq> ascii ''Modern''" "theme \<noteq> ascii ''Elegant''"
  shows "themes theme = None"
  using assms by (simp add: themes_def)

lemma style_card_eq: "style_card theme =
   Inr (dict_get themes theme (map_of
         [(ascii ''font_family'', [39] @ ascii ''Playfair Display'' @ [39] @ ascii '', serif''),
          (ascii ''color'', ascii ''#1a1a1a''),
          (ascii ''background'', ascii ''#ffffff'')]))"
  by (simp add: style_card_def subscript_Classic)

lemma map_of_three:
  "k1 \<noteq> k2 \<Longrightarrow> k1 \<noteq> k3 \<Longrightarrow> k2 \<noteq> k3 \<Longrightarrow>
   map_of [(k1, v1), (k2, v2), (k3, v3)] = [k1 \<mapsto> v1, k2 \<mapsto> v2, k3 \<mapsto> v3]"
  by (rule ext) simp

lemma bundle_keys:
  "ascii ''font_family'' \<noteq> ascii ''color''" "ascii ''font_family'' \<noteq> ascii ''background''"
  "ascii ''color'' \<noteq> ascii ''background''"
  by (simp_all add: ascii_eq_iff)

lemma bundle_eq:
  "map_of [(ascii ''font_family'', a), (ascii ''color'', b), (ascii ''background'', c)] =
     [ascii ''font_family'' \<mapsto> a, ascii ''color'' \<mapsto> b, ascii ''background'' \<mapsto> c]"
  by (rule map_of_three[OF bundle_keys])

lemma themes_Classic:
  "themes (ascii ''Classic'') = Some (map_of
         [(ascii ''font_family'', [39] @ ascii ''Playfair Display'' @ [39] @ ascii '', serif''),
          (ascii ''color'', ascii ''#1a1a1a''),
          (ascii ''background'', ascii ''#ffffff'')])"
  by (simp add: themes_def)

lemma themes_Modern:
  "themes (ascii ''Modern'') = Some (map_of
         [(ascii ''font_family'', [39] @ ascii ''Roboto'' @ [39] @ ascii '', sans-serif''),
          (ascii ''color'', ascii ''#333333''),
          (ascii ''background'', ascii ''#f5f5f5'')])"
  by (simp add: themes_def ascii_eq_iff)

lemma themes_Elegant:
  "themes (ascii ''Elegant'') = Some (map_of
         [(ascii ''font_family'', [39] @ ascii ''Cormorant Garamond'' @ [39] @ ascii '', serif''),
          (ascii ''color'', ascii ''#2c3e50''),
          (ascii ''background'', ascii ''#ecf0f1'')])"
  by (simp add: themes_def ascii_eq_iff)

lemma style_card_Classic:
  "style_card (ascii ''Classic'') =
     Inr [ascii ''font_family'' \<mapsto> [39] @ ascii ''Playfair Display'' @ [39] @ ascii '', serif'',
          ascii ''color'' \<mapsto> ascii ''#1a1a1a'',
          ascii ''background'' \<mapsto> ascii ''#ffffff'']"
  by (simp only: style_card_eq dict_get_def themes_Classic option.case bundle_eq)

lemma style_card_Modern:
  "style_card (ascii ''Modern'') =
     Inr [ascii ''font_family'' \<mapsto> [39] @ ascii ''Roboto'' @ [39] @ ascii '', sans-serif'',
          ascii ''color'' \<mapsto> ascii ''#333333'',
          ascii ''background'' \<mapsto> ascii ''#f5f5f5'']"
  by (simp only: style_card_eq dict_get_def themes_Modern option.case bundle_eq)

lemma style_card_Elegant:
  "style_card (ascii ''Elegant'') =
     Inr [ascii ''font_family'' \<mapsto> [39] @ ascii ''Cormorant Garamond'' @ [39] @ ascii '', serif'',
          ascii ''color'' \<mapsto> ascii ''#2c3e50'',
          ascii ''background'' \<mapsto> ascii ''#ecf0f1'']"
  by (simp only: style_card_eq dict_get_def themes_Elegant option.case bundle_eq)

lemma style_card_default:
  assumes "theme \<notin> {ascii ''Classic'', ascii ''Modern'', ascii ''Elegant''}"
  shows "style_card theme = style_card (ascii ''Classic'')"
  using assms by (simp add: style_card_eq dict_get_def themes_unrecognized) (simp add: themes_def)

lemma suggest_theme_range:
  "snd (suggest_theme env key tone message) \<in> {ascii ''classic'', ascii ''modern'', ascii ''elegant''}"
  by (cases "get_completion env key (theme_prompt tone message)")
     (simp add: suggest_theme_def Let_def)

text \<open>
  C8: \<open>style_card\<close> returns the recorded property bundle for each of the names
  "Classic", "Modern" and "Elegant"; for every other name it returns the "Classic" bundle,
  and so it does for every name the theme-suggestion agent produces, which is one of the
  lowercase names "classic", "modern", "elegant".
\<close>

theorem style_card_catalog:
  "style_card (ascii ''Classic'') =
     Inr [ascii ''font_family'' \<mapsto> [39] @ ascii ''Playfair Display'' @ [39] @ ascii '', serif'',
          ascii ''color'' \<mapsto> ascii ''#1a1a1a'',
          ascii ''background'' \<mapsto> ascii ''#ffffff''] \<and>
   style_card (ascii ''Modern'') =
     Inr [ascii ''font_family'' \<mapsto> [39] @ ascii ''Roboto'' @ [39] @ ascii '', sans-serif'',
          ascii ''color'' \<mapsto> ascii ''#333333'',
          ascii ''background'' \<mapsto> ascii ''#f5f5f5''] \<and>
   style_card (ascii ''Elegant'') =
     Inr [ascii ''font_family'' \<mapsto> [39] @ ascii ''Cormorant Garamond'' @ [39] @ ascii '', serif'',
          ascii ''color'' \<mapsto> ascii ''#2c3e50'',
          ascii ''background'' \<mapsto> ascii ''#ecf0f1''] \<and>
   (theme \<notin> {ascii ''Classic'', ascii ''Modern'', ascii ''Elegant''} \<longrightarrow>
      style_card theme = style_card (ascii ''Classic'')) \<and>
   style_card (snd (suggest_theme env key tone message)) = style_card (ascii ''Classic'')"
proof -
  have "snd (suggest_theme env key tone message) \<notin> {ascii ''Classic'', ascii ''Modern'', ascii ''Elegant''}"
    using suggest_theme_range[of env key tone message] by (auto simp: ascii_eq_iff)
  then have "style_card (snd (suggest_theme env key tone message)) = style_card (ascii ''Classic'')"
    by (rule style_card_default)
  then show ?thesis
    using style_card_Classic style_card_Modern style_card_Elegant style_card_default[of theme]
    by blast
qed

theorem style_card_catalog_witness:
  "ascii ''modern'' \<notin> {ascii ''Classic'', ascii ''Modern'', ascii ''Elegant''} \<and>
   style_card (ascii ''modern'') =
     Inr [ascii ''font_family'' \<mapsto> [39] @ ascii ''Playfair Display'' @ [39] @ ascii '', serif'',
          ascii ''color'' \<mapsto> ascii ''#1a1a1a'',
          ascii ''background'' \<mapsto> ascii ''#ffffff'']"
proof -
  have h: "ascii ''modern'' \<notin> {ascii ''Classic'', ascii ''Modern'', ascii ''Elegant''}"
    by (simp add: ascii_eq_iff)
  from style_card_catalog[of "ascii ''modern''"] h
  show ?thesis by metis
qed

section \<open>The message composer\<close>

lemma pool_step:
  assumes "distinct pool" "j < length pool"
  shows "distinct (butlast (pool[j := last pool]))"
    and "set (butlast (pool[j := last pool])) = set pool - {pool ! j}"
    and "length (butlast (pool[j := last pool])) = length pool - 1"
proof -
  from assms obtain ys l where p: "pool = ys @ [l]"
    by (cases pool rule: rev_cases) auto
  show "length (butlast (pool[j := last pool])) = length pool - 1" by simp
  show "distinct (butlast (pool[j := last pool]))"
    using assms p by (cases "j < length ys") (auto simp: list_update_append distinct_list_update nth_append)
  show "set (butlast (pool[j := last pool])) = set pool - {pool ! j}"
    using assms p by (cases "j < length ys") (auto simp: list_update_append set_update_distinct nth_append)
qed

lemma sample_pool_props:
  "distinct pool \<Longrightarrow> k \<le> length pool \<Longrightarrow>
     length (sample_pool rnd i pool k) = k \<and> distinct (sample_pool rnd i pool k) \<and>
     set (sample_pool rnd i pool k) \<subseteq> set pool"
proof (induction rnd i pool k rule: sample_pool.induct)
  case (1 rnd i pool)
  then show ?case by simp
next
  case (2 rnd i k)
  then show ?case by simp
next
  case (3 rnd i p ps k)
  define pool where "pool = p # ps"
  define j where "j = rnd i mod length pool"
  have j: "j < length pool" by (simp add: j_def pool_def)
  have d: "distinct pool" using 3 by (simp add: pool_def)
  note st = pool_step[OF d j]
  have "k \<le> length (butlast (pool[j := last pool]))" using 3(3) st(3) by (simp add: pool_def)
  from 3(1)[OF pool_def j_def st(1) this]
  have ih: "length (sample_pool rnd (Suc i) (butlast (pool[j := last pool])) k) = k"
    "distinct (sample_pool rnd (Suc i) (butlast (pool[j := last pool])) k)"
    "set (sample_pool rnd (Suc i) (butlast (pool[j := last pool])) k) \<subseteq> set pool - {pool ! j}"
    using st(2) by auto
  have "sample_pool rnd i (p # ps) (Suc k) = pool ! j # sample_pool rnd (Suc i) (butlast (pool[j := last pool])) k"
    by (simp add: pool_def j_def Let_def)
  moreover have "pool ! j \<in> set pool" using j by simp
  ultimately show ?case using ih by (auto simp: pool_def[symmetric])
qed

lemma sample_min:
  "0 < n \<Longrightarrow> sample rnd glyphs (min n (int (length glyphs))) =
     Inr (sample_pool rnd 0 glyphs (nat (min n (int (length glyphs)))))"
  by (simp add: sample_def)

lemma generate_greeting_eq:
  "generate_greeting env key recipient tone h u n sender =
     (fst (get_completion env key (greeting_prompt recipient tone h u sender)),
      Inr (let response = snd (get_completion env key (greeting_prompt recipient tone h u sender))
           in case (if 0 < n then EMOJI_SETS tone else None) of
                None \<Rightarrow> response
              | Some glyphs \<Rightarrow>
                  join (ascii '' '') (sample_pool (randbelow env) 0 glyphs (nat (min n (int (length glyphs)))))
                  @ ascii ''\<newline>'' @ response @ ascii ''\<newline>'' @
                  join (ascii '' '') (sample_pool (randbelow env) 0 glyphs (nat (min n (int (length glyphs)))))))"
  by (cases "get_completion env key (greeting_prompt recipient tone h u sender)")
     (auto simp: generate_greeting_def subscript_def sample_min Let_def split: option.splits)

lemma EMOJI_SETS_tones:
  assumes "tone \<in> {ascii ''funny'', ascii ''emotional'', ascii ''religious'', ascii ''formal''}"
  shows "\<exists>glyphs. EMOJI_SETS tone = Some glyphs \<and> length glyphs = 10 \<and> distinct glyphs \<and>
           (\<forall>g \<in> set glyphs. 10 \<notin> set g)"
  using assms by (auto simp: EMOJI_SETS_def ascii_eq_iff)

lemma join_no_newline:
  "\<forall>g \<in> set xs. c \<notin> set g \<Longrightarrow> c \<notin> set sep \<Longrightarrow> c \<notin> set (join sep xs)"
  by (induction sep xs rule: join.induct) auto

text \<open>
  C3: when no text-generation credential is configured (the variable is unset or empty),
  \<open>generate_eid_message\<close> returns exactly \<open>DEFAULT_MESSAGE\<close>, whatever the
  recipient, tone, sender and flags, without calling the service and without adding glyphs.
\<close>

theorem generate_eid_message_no_credential:
  assumes "openrouter_api_key env = None \<or> openrouter_api_key env = Some []"
  shows "generate_eid_message env recipient tone sender include_hadith include_urdu include_emojis
           = ([], Inr DEFAULT_MESSAGE)"
  using assms by (auto simp: generate_eid_message_def)

theorem generate_eid_message_no_credential_witness:
  "generate_eid_message
     \<lparr>openrouter_api_key = None,
      completion = (\<lambda>key prompt. Inr [Some (ascii ''Eid Mubarak!'')]),
      randbelow = (\<lambda>i. 0), lower = (\<lambda>s. s)\<rparr>
     (ascii ''Ali'') (ascii ''formal'') (ascii ''Sara'') False False True
   = ([], Inr DEFAULT_MESSAGE)"
  by (rule generate_eid_message_no_credential) simp

lemma append_wrap_neq: "a \<noteq> [] \<Longrightarrow> a @ b @ m @ c \<noteq> m"
proof
  assume "a \<noteq> []" "a @ b @ m @ c = m"
  then have "length (a @ b @ m @ c) = length m" by simp
  with \<open>a \<noteq> []\<close> show False by simp
qed

lemma sample_pool_two_first:
  "sample_pool (\<lambda>i. 0) 0 [g0, g1, g2, g3, g4, g5, g6, g7, g8, g9] 2 = [g0, g9]"
  by (simp add: numeral_2_eq_2 Let_def)

lemma wrapped_neq: "a @ [10] @ m @ c \<noteq> (m::nat list)"
proof
  assume "a @ [10] @ m @ c = m"
  then have "length (a @ [10] @ m @ c) = length m" by simp
  then show False by simp
qed

lemma generate_eid_message_with_key:
  assumes "openrouter_api_key env = Some key" "key \<noteq> []"
  shows "generate_eid_message env recipient tone sender h u include_emojis =
           generate_greeting env key recipient tone h u (if include_emojis then 2 else 0) sender"
  using assms by (simp add: generate_eid_message_def craft_message_def opt_get_def)

lemma greeting_after_failure:
  assumes "completion_try env key (greeting_prompt recipient tone h u sender) = Inl e"
  shows "\<exists>text emoji_str.
        snd (generate_greeting env key recipient tone h u n sender) = Inr text \<and>
        (text = DEFAULT_MESSAGE \<or>
         text = emoji_str @ ascii ''\<newline>'' @ DEFAULT_MESSAGE @ ascii ''\<newline>'' @ emoji_str) \<and>
        (text = DEFAULT_MESSAGE \<longleftrightarrow> n \<le> 0 \<or> EMOJI_SETS tone = None)"
proof -
  have gc: "snd (get_completion env key (greeting_prompt recipient tone h u sender)) = DEFAULT_MESSAGE"
    using assms by (simp add: get_completion_def)
  have nl: "ascii ''\<newline>'' = [10]" by (simp add: ascii_def)
  show ?thesis
  proof (cases "0 < n \<and> EMOJI_SETS tone \<noteq> None")
    case True
    then obtain glyphs where g: "EMOJI_SETS tone = Some glyphs" by auto
    define emoji_str where "emoji_str =
      join (ascii '' '') (sample_pool (randbelow env) 0 glyphs (nat (min n (int (length glyphs)))))"
    have "snd (generate_greeting env key recipient tone h u n sender) =
            Inr (emoji_str @ [10] @ DEFAULT_MESSAGE @ [10] @ emoji_str)"
      using True g by (simp add: generate_greeting_eq gc nl emoji_str_def)
    moreover have "emoji_str @ [10] @ DEFAULT_MESSAGE @ [10] @ emoji_str \<noteq> DEFAULT_MESSAGE"
      by (rule wrapped_neq)
    ultimately show ?thesis using True unfolding nl by fastforce
  next
    case False
    then have "snd (generate_greeting env key recipient tone h u n sender) = Inr DEFAULT_MESSAGE"
      by (auto simp: generate_greeting_eq gc)
    then show ?thesis using False by auto
  qed
qed

text \<open>
  C4, as stated, fails: with the service raising, the tone "formal" and glyphs requested,
  the composer returns \<open>DEFAULT_MESSAGE\<close> between two glyph lines, which is not
  \<open>DEFAULT_MESSAGE\<close>.
\<close>

theorem remote_failure_counterexample:
  "snd (generate_eid_message
     \<lparr>openrouter_api_key = Some (ascii ''sk-test''),
      completion = (\<lambda>key prompt. Inl (Exn OtherException (ascii ''timeout''))),
      randbelow = (\<lambda>i. 0), lower = (\<lambda>s. s)\<rparr>
     (ascii ''Ali'') (ascii ''formal'') (ascii ''Sara'') False False True)
   = Inr ([0x1F33A, 32, 0x1F490, 10] @ DEFAULT_MESSAGE @ [10, 0x1F33A, 32, 0x1F490]) \<and>
   [0x1F33A, 32, 0x1F490, 10] @ DEFAULT_MESSAGE @ [10, 0x1F33A, 32, 0x1F490] \<noteq> DEFAULT_MESSAGE"
proof
  define env where "env = \<lparr>openrouter_api_key = Some (ascii ''sk-test''),
      completion = (\<lambda>key prompt. Inl (Exn OtherException (ascii ''timeout''))),
      randbelow = (\<lambda>i. 0), lower = (\<lambda>s. s)\<rparr>"
  show "[0x1F33A, 32, 0x1F490, 10] @ DEFAULT_MESSAGE @ [10, 0x1F33A, 32, 0x1F490] \<noteq> DEFAULT_MESSAGE"
    using append_wrap_neq[of "[0x1F33A, 32, 0x1F490]" "[10]" DEFAULT_MESSAGE "[10, 0x1F33A, 32, 0x1F490]"]
    by simp
  have key: "ascii ''sk-test'' \<noteq> []" by (simp add: ascii_def)
  have glyphs: "EMOJI_SETS (ascii ''formal'') = Some [[0x1F33A], [0x1F380], [0x2728], [0x1F4AB], [0x1F338], [0x1F339], [0x1F337], [0x1F397, 0xFE0F], [0x1F31F], [0x1F490]]"
    by (simp add: EMOJI_SETS_def ascii_eq_iff)
  have rb: "randbelow env = (\<lambda>i. 0)" by (simp add: env_def)
  have resp: "snd (get_completion env (ascii ''sk-test'') p) = DEFAULT_MESSAGE" for p
    by (simp add: get_completion_def completion_try_def env_def)
  have "generate_eid_message env (ascii ''Ali'') (ascii ''formal'') (ascii ''Sara'') False False True
      = generate_greeting env (ascii ''sk-test'') (ascii ''Ali'') (ascii ''formal'') False False 2 (ascii ''Sara'')"
    using key by (simp add: generate_eid_message_def craft_message_def opt_get_def env_def)
  also have "snd \<dots> = Inr ([0x1F33A, 32, 0x1F490, 10] @ DEFAULT_MESSAGE @ [10, 0x1F33A, 32, 0x1F490])"
    by (simp add: generate_greeting_eq glyphs resp rb sample_pool_two_first) (simp add: ascii_def)
  finally show "snd (generate_eid_message
     \<lparr>openrouter_api_key = Some (ascii ''sk-test''),
      completion = (\<lambda>key prompt. Inl (Exn OtherException (ascii ''timeout''))),
      randbelow = (\<lambda>i. 0), lower = (\<lambda>s. s)\<rparr>
     (ascii ''Ali'') (ascii ''formal'') (ascii ''Sara'') False False True)
   = Inr ([0x1F33A, 32, 0x1F490, 10] @ DEFAULT_MESSAGE @ [10, 0x1F33A, 32, 0x1F490])"
    by (simp add: env_def)
qed

text \<open>
  C4, amended: when the remote call raises, or its answer has no choice or no content,
  \<open>_get_completion\<close> catches the exception, logs it and returns
  \<open>DEFAULT_MESSAGE\<close>, and no exception reaches the caller of \<open>generate_greeting\<close> or
  \<open>generate_eid_message\<close>. The value the composer returns is \<open>DEFAULT_MESSAGE\<close>
  exactly when no glyphs are requested or the tone has no glyph set; otherwise it is
  \<open>DEFAULT_MESSAGE\<close> between a prepended and an appended glyph line.
\<close>

theorem remote_failure_default:
  assumes "completion_try env key (greeting_prompt recipient tone h u sender) = Inl e"
  shows
    "get_completion env key (greeting_prompt recipient tone h u sender) =
       ([Completion (greeting_prompt recipient tone h u sender),
         Log_error (ascii ''Error getting completion: '' @ exn_str e)], DEFAULT_MESSAGE) \<and>
     (\<exists>text emoji_str.
        snd (generate_greeting env key recipient tone h u n sender) = Inr text \<and>
        (text = DEFAULT_MESSAGE \<or>
         text = emoji_str @ ascii ''\<newline>'' @ DEFAULT_MESSAGE @ ascii ''\<newline>'' @ emoji_str) \<and>
        (text = DEFAULT_MESSAGE \<longleftrightarrow> n \<le> 0 \<or> EMOJI_SETS tone = None)) \<and>
     (openrouter_api_key env = Some key \<and> key \<noteq> [] \<longrightarrow>
        (\<exists>text.
           snd (generate_eid_message env recipient tone sender h u include_emojis) = Inr text \<and>
           (text = DEFAULT_MESSAGE \<longleftrightarrow> \<not> include_emojis \<or> EMOJI_SETS tone = None)))"
proof (intro conjI impI)
  show "get_completion env key (greeting_prompt recipient tone h u sender) =
       ([Completion (greeting_prompt recipient tone h u sender),
         Log_error (ascii ''Error getting completion: '' @ exn_str e)], DEFAULT_MESSAGE)"
    using assms by (simp add: get_completion_def)
  show "\<exists>text emoji_str.
        snd (generate_greeting env key recipient tone h u n sender) = Inr text \<and>
        (text = DEFAULT_MESSAGE \<or>
         text = emoji_str @ ascii ''\<newline>'' @ DEFAULT_MESSAGE @ ascii ''\<newline>'' @ emoji_str) \<and>
        (text = DEFAULT_MESSAGE \<longleftrightarrow> n \<le> 0 \<or> EMOJI_SETS tone = None)"
    by (rule greeting_after_failure[OF assms])
  assume k: "openrouter_api_key env = Some key \<and> key \<noteq> []"
  from greeting_after_failure[OF assms, of "if include_emojis then 2 else 0"]
  show "\<exists>text.
           snd (generate_eid_message env recipient tone sender h u include_emojis) = Inr text \<and>
           (text = DEFAULT_MESSAGE \<longleftrightarrow> \<not> include_emojis \<or> EMOJI_SETS tone = None)"
    using k by (auto simp: generate_eid_message_with_key split: if_splits)
qed

theorem remote_failure_default_witness:
  "completion_try
     \<lparr>openrouter_api_key = Some (ascii ''sk-test''),
      completion = (\<lambda>key prompt. Inl (Exn OtherException (ascii ''timeout''))),
      randbelow = (\<lambda>i. 0), lower = (\<lambda>s. s)\<rparr>
     (ascii ''sk-test'') (greeting_prompt (ascii ''Ali'') (ascii ''formal'') False False (ascii ''Sara''))
     = Inl (Exn OtherException (ascii ''timeout'')) \<and>
   snd (get_completion
     \<lparr>openrouter_api_key = Some (ascii ''sk-test''),
      completion = (\<lambda>key prompt. Inl (Exn OtherException (ascii ''timeout''))),
      randbelow = (\<lambda>i. 0), lower = (\<lambda>s. s)\<rparr>
     (ascii ''sk-test'') (greeting_prompt (ascii ''Ali'') (ascii ''formal'') False False (ascii ''Sara'')))
     = DEFAULT_MESSAGE \<and>
   snd (generate_eid_message
     \<lparr>openrouter_api_key = Some (ascii ''sk-test''),
      completion = (\<lambda>key prompt. Inl (Exn OtherException (ascii ''timeout''))),
      randbelow = (\<lambda>i. 0), lower = (\<lambda>s. s)\<rparr>
     (ascii ''Ali'') (ascii ''formal'') (ascii ''Sara'') False False False) = Inr DEFAULT_MESSAGE"
proof -
  let ?env = "\<lparr>openrouter_api_key = Some (ascii ''sk-test''),
      completion = (\<lambda>key prompt. Inl (Exn OtherException (ascii ''timeout''))),
      randbelow = (\<lambda>i. 0), lower = (\<lambda>s. s)\<rparr>"
  have h: "completion_try ?env (ascii ''sk-test'')
             (greeting_prompt (ascii ''Ali'') (ascii ''formal'') False False (ascii ''Sara''))
           = Inl (Exn OtherException (ascii ''timeout''))"
    by (simp add: completion_try_def)
  have k: "openrouter_api_key ?env = Some (ascii ''sk-test'') \<and> ascii ''sk-test'' \<noteq> []"
    by (simp add: ascii_def)
  show ?thesis
    using h k remote_failure_default[OF h, where n = 0 and include_emojis = False]
    by auto
qed

text \<open>
  C5: for each of the four tones and every glyph count \<open>n > 0\<close>,
  \<open>generate_greeting\<close> puts one line before and one line after the generated text,
  each the same selection of \<open>min(n, 10)\<close> glyphs joined by spaces, all from the
  tone's set of 10 and without duplicates; for \<open>n \<le> 0\<close> or a tone without a glyph
  set the generated text is returned as it is.
\<close>

theorem generate_greeting_glyphs:
  "(tone \<in> {ascii ''funny'', ascii ''emotional'', ascii ''religious'', ascii ''formal''} \<and> 0 < n \<longrightarrow>
      (\<exists>glyphs selection.
         EMOJI_SETS tone = Some glyphs \<and> length glyphs = 10 \<and>
         length selection = min (nat n) (length glyphs) \<and>
         distinct selection \<and> set selection \<subseteq> set glyphs \<and>
         10 \<notin> set (join (ascii '' '') selection) \<and>
         snd (generate_greeting env key recipient tone h u n sender) =
           Inr (join (ascii '' '') selection @ ascii ''\<newline>'' @
                snd (get_completion env key (greeting_prompt recipient tone h u sender)) @
                ascii ''\<newline>'' @ join (ascii '' '') selection))) \<and>
   (n \<le> 0 \<or> EMOJI_SETS tone = None \<longrightarrow>
      snd (generate_greeting env key recipient tone h u n sender) =
        Inr (snd (get_completion env key (greeting_prompt recipient tone h u sender))))"
proof (intro conjI impI)
  assume a: "tone \<in> {ascii ''funny'', ascii ''emotional'', ascii ''religious'', ascii ''formal''} \<and> 0 < n"
  then obtain glyphs where g: "EMOJI_SETS tone = Some glyphs" "length glyphs = 10" "distinct glyphs"
    "\<forall>g \<in> set glyphs. 10 \<notin> set g"
    using EMOJI_SETS_tones by blast
  define k where "k = nat (min n (int (length glyphs)))"
  define selection where "selection = sample_pool (randbelow env) 0 glyphs k"
  have k: "k = min (nat n) (length glyphs)" "k \<le> length glyphs"
    using a by (auto simp: k_def)
  have sel: "length selection = k" "distinct selection" "set selection \<subseteq> set glyphs"
    using sample_pool_props[OF g(3) k(2), of "randbelow env" 0] by (simp_all add: selection_def)
  have nl: "10 \<notin> set (join (ascii '' '') selection)"
    using g(4) sel(3) by (intro join_no_newline) (auto simp: ascii_def)
  have "snd (generate_greeting env key recipient tone h u n sender) =
           Inr (join (ascii '' '') selection @ ascii ''\<newline>'' @
                snd (get_completion env key (greeting_prompt recipient tone h u sender)) @
                ascii ''\<newline>'' @ join (ascii '' '') selection)"
    using a g(1) by (simp add: generate_greeting_eq selection_def k_def)
  with g(1,2) sel k nl show "\<exists>glyphs selection.
         EMOJI_SETS tone = Some glyphs \<and> length glyphs = 10 \<and>
         length selection = min (nat n) (length glyphs) \<and>
         distinct selection \<and> set selection \<subseteq> set glyphs \<and>
         10 \<notin> set (join (ascii '' '') selection) \<and>
         snd (generate_greeting env key recipient tone h u n sender) =
           Inr (join (ascii '' '') selection @ ascii ''\<newline>'' @
                snd (get_completion env key (greeting_prompt recipient tone h u sender)) @
                ascii ''\<newline>'' @ join (ascii '' '') selection)"
    by blast
next
  assume "n \<le> 0 \<or> EMOJI_SETS tone = None"
  then show "snd (generate_greeting env key recipient tone h u n sender) =
        Inr (snd (get_completion env key (greeting_prompt recipient tone h u sender)))"
    by (auto simp: generate_greeting_eq)
qed

theorem generate_greeting_glyphs_witness:
  "(\<exists>glyphs selection.
      EMOJI_SETS (ascii ''formal'') = Some glyphs \<and> length glyphs = 10 \<and>
      length selection = min (nat 12) (length glyphs) \<and>
      distinct selection \<and> set selection \<subseteq> set glyphs \<and>
      10 \<notin> set (join (ascii '' '') selection) \<and>
      snd (generate_greeting
             \<lparr>openrouter_api_key = Some (ascii ''sk-test''),
              completion = (\<lambda>key prompt. Inr [Some (ascii ''Eid Mubarak!'')]),
              randbelow = (\<lambda>i. 7 * i + 3), lower = (\<lambda>s. s)\<rparr>
             (ascii ''sk-test'') (ascii ''Ali'') (ascii ''formal'') False True 12 (ascii ''Sara'')) =
        Inr (join (ascii '' '') selection @ ascii ''\<newline>'' @
             snd (get_completion
                   \<lparr>openrouter_api_key = Some (ascii ''sk-test''),
                    completion = (\<lambda>key prompt. Inr [Some (ascii ''Eid Mubarak!'')]),
                    randbelow = (\<lambda>i. 7 * i + 3), lower = (\<lambda>s. s)\<rparr>
                   (ascii ''sk-test'')
                   (greeting_prompt (ascii ''Ali'') (ascii ''formal'') False True (ascii ''Sara''))) @
             ascii ''\<newline>'' @ join (ascii '' '') selection)) \<and>
   snd (generate_greeting
          \<lparr>openrouter_api_key = Some (ascii ''sk-test''),
           completion = (\<lambda>key prompt. Inr [Some (ascii ''Eid Mubarak!'')]),
           randbelow = (\<lambda>i. 7 * i + 3), lower = (\<lambda>s. s)\<rparr>
          (ascii ''sk-test'') (ascii ''Ali'') (ascii ''formal'') False True 0 (ascii ''Sara'')) =
     Inr (ascii ''Eid Mubarak!'')"
proof -
  let ?env = "\<lparr>openrouter_api_key = Some (ascii ''sk-test''),
           completion = (\<lambda>key prompt. Inr [Some (ascii ''Eid Mubarak!'')]),
           randbelow = (\<lambda>i. 7 * i + 3), lower = (\<lambda>s. s)\<rparr>"
  have h1: "ascii ''formal'' \<in> {ascii ''funny'', ascii ''emotional'', ascii ''religious'', ascii ''formal''}
            \<and> (0::int) < 12"
    by simp
  have h2: "(0::int) \<le> 0 \<or> EMOJI_SETS (ascii ''formal'') = None"
    by simp
  have r: "snd (get_completion ?env (ascii ''sk-test'') p) = ascii ''Eid Mubarak!''" for p
    by (simp add: get_completion_def completion_try_def strip_def isspace_def ascii_def)
  note t1 = generate_greeting_glyphs[where tone = "ascii ''formal''" and n = 12 and env = ?env
      and key = "ascii ''sk-test''" and recipient = "ascii ''Ali''" and h = False and u = True
      and sender = "ascii ''Sara''", THEN conjunct1, THEN mp, OF h1]
  note t2 = generate_greeting_glyphs[where tone = "ascii ''formal''" and n = 0 and env = ?env
      and key = "ascii ''sk-test''" and recipient = "ascii ''Ali''" and h = False and u = True
      and sender = "ascii ''Sara''", THEN conjunct2, THEN mp, OF h2]
  show ?thesis
    using t1 t2 unfolding r by (intro conjI) assumption+
qed

section \<open>Theme colours in the renderers\<close>

lemma hex_color_defaults:
  "hex_color (ascii ''#4a4a4a'') = Inr (74, 74, 74)" "hex_color (ascii ''#000000'') = Inr (0, 0, 0)"
  by (simp_all add: hex_color_def py_int16_def slice_def ascii_def int_space_def hex_digit_def isspace_def)

lemma style_card_cases:
  "style_card theme = style_card (ascii ''Classic'') \<or> style_card theme = style_card (ascii ''Modern'')
   \<or> style_card theme = style_card (ascii ''Elegant'')"
  using style_card_default[of theme] by auto

lemma dom_three: "dom [k1 \<mapsto> v1, k2 \<mapsto> v2, k3 \<mapsto> v3] = {k1, k2, k3}"
  by auto

lemma style_card_keys:
  "\<exists>th. style_card theme = Inr th \<and>
        dom th = {ascii ''font_family'', ascii ''color'', ascii ''background''}"
  using style_card_cases[of theme] style_card_Classic style_card_Modern style_card_Elegant
  by (metis dom_three)

text \<open>
  C9: for every theme name the dictionary of \<open>style_card\<close> has the keys
  \<open>font_family\<close>, \<open>color\<close> and \<open>background\<close> only, and none of \<open>text_color\<close>,
  \<open>bg_color\<close>, \<open>title_color\<close> that the renderers read. So \<open>create_preview\<close> on it
  embeds the fallback colours \<open>#ffffff\<close>, \<open>#000000\<close> and \<open>#4a4a4a\<close> for every
  message and recipient, and the colours of the PDF renderer are the defaults
  \<open>(74, 74, 74)\<close> for the title and \<open>(0, 0, 0)\<close> for the text.
\<close>

theorem style_card_colour_keys:
  "\<exists>th. style_card theme = Inr th \<and>
        dom th = {ascii ''font_family'', ascii ''color'', ascii ''background''} \<and>
        th (ascii ''text_color'') = None \<and> th (ascii ''bg_color'') = None \<and>
        th (ascii ''title_color'') = None \<and>
        create_preview message recipient th =
          html_template (ascii ''#ffffff'') (ascii ''#000000'') (ascii ''#4a4a4a'') recipient
            (replace_char 10 (ascii ''<br>'') message) \<and>
        title_color th = Inr (74, 74, 74) \<and> text_color th = Inr (0, 0, 0)"
proof -
  obtain th where th: "style_card theme = Inr th"
    "dom th = {ascii ''font_family'', ascii ''color'', ascii ''background''}"
    using style_card_keys by blast
  have "ascii ''text_color'' \<notin> dom th" "ascii ''bg_color'' \<notin> dom th" "ascii ''title_color'' \<notin> dom th"
    unfolding th(2) by (simp_all add: ascii_eq_iff)
  then have none: "th (ascii ''text_color'') = None" "th (ascii ''bg_color'') = None"
    "th (ascii ''title_color'') = None"
    by auto
  have "create_preview message recipient th =
          html_template (ascii ''#ffffff'') (ascii ''#000000'') (ascii ''#4a4a4a'') recipient
            (replace_char 10 (ascii ''<br>'') message)"
    by (simp add: create_preview_def dict_get_def none)
  moreover have "title_color th = Inr (74, 74, 74)" "text_color th = Inr (0, 0, 0)"
    by (simp_all add: title_color_def text_color_def dict_get_def none hex_color_defaults)
  ultimately show ?thesis using th none by blast
qed

section \<open>The background resolver\<close>

lemma primary_loop_scan: "primary_loop env n ts = scan primary_candidates env n ts"
  by (induction ts arbitrary: n)
     (auto simp: primary_candidates_def random_choice_def Let_def split: sum.splits prod.splits)

lemma fallback_terms_scan: "fallback_terms env n ts = scan fallback_candidates env n ts"
  by (induction ts arbitrary: n)
     (auto simp: fallback_candidates_def random_choice_def Let_def split: sum.splits prod.splits)

lemma scan_None_events: "scan cand env n ts = (evs, Inr None) \<Longrightarrow> evs = map Http_get ts"
  by (induction ts arbitrary: n evs) (auto split: sum.splits if_splits prod.splits)

lemma scan_append:
  "scan cand env n (xs @ ys) =
     (case scan cand env n xs of
        (evs, Inr None) \<Rightarrow> (let (evs', r) = scan cand env (n + length xs) ys in (evs @ evs', r))
      | (evs, r) \<Rightarrow> (evs, r))"
  by (induction xs arbitrary: n)
     (auto split: sum.splits if_splits prod.splits option.splits)

lemma SEARCH_TERMS_fallback:
  "subscript SEARCH_TERMS (ascii ''Islamic Patterns'') =
     Inr [ascii ''islamic pattern'', ascii ''arabic pattern'', ascii ''islamic geometric'', ascii ''islamic art'']"
  "subscript SEARCH_TERMS (ascii ''Geometric Patterns'') =
     Inr [ascii ''geometric pattern'', ascii ''moroccan pattern'', ascii ''islamic geometry'', ascii ''arabesque pattern'']"
  "subscript SEARCH_TERMS (ascii ''Nature & Flowers'') =
     Inr [ascii ''islamic garden'', ascii ''arabic floral'', ascii ''islamic floral'', ascii ''moroccan garden'']"
  by (simp_all add: subscript_def SEARCH_TERMS_def ascii_eq_iff)

lemma fallback_queries_eq:
  "fallback_queries =
     [ascii ''islamic pattern'', ascii ''arabic pattern'', ascii ''islamic geometric'', ascii ''islamic art''] @
     [ascii ''geometric pattern'', ascii ''moroccan pattern'', ascii ''islamic geometry'', ascii ''arabesque pattern''] @
     [ascii ''islamic garden'', ascii ''arabic floral'', ascii ''islamic floral'', ascii ''moroccan garden'']"
  by (simp add: fallback_queries_def fallback_categories_def dict_get_def SEARCH_TERMS_def ascii_eq_iff)

lemma length_search_terms: "length (search_terms category) = 4"
  by (auto simp: search_terms_def dict_get_def SEARCH_TERMS_def split: option.splits if_splits)

lemma fallback_step:
  assumes "subscript SEARCH_TERMS c = Inr terms"
  shows "fallback_loop env n (c # rest) =
     (case scan fallback_candidates env n terms of
        (evs, Inr None) \<Rightarrow>
          (let (evs', r) = fallback_loop env (n + length terms) rest in (evs @ evs', r))
      | (evs, r) \<Rightarrow> (evs, r))"
  using assms
  by (auto simp: fallback_terms_scan dest: scan_None_events split: prod.splits sum.splits option.splits)

lemma fallback_loop_scan_gen:
  assumes "\<forall>c \<in> set cats. \<exists>terms. SEARCH_TERMS c = Some terms"
  shows "fallback_loop env n cats =
           scan fallback_candidates env n (concat (map (\<lambda>c. dict_get SEARCH_TERMS c []) cats))"
  using assms
proof (induction cats arbitrary: n)
  case Nil
  then show ?case by simp
next
  case (Cons c rest)
  then obtain terms where t: "SEARCH_TERMS c = Some terms" by auto
  then have sub: "subscript SEARCH_TERMS c = Inr terms" by (simp add: subscript_def)
  have ih: "fallback_loop env (n + length terms) rest =
           scan fallback_candidates env (n + length terms)
             (concat (map (\<lambda>c. dict_get SEARCH_TERMS c []) rest))"
    using Cons by simp
  have cc: "concat (map (\<lambda>c. dict_get SEARCH_TERMS c []) (c # rest)) =
              terms @ concat (map (\<lambda>c. dict_get SEARCH_TERMS c []) rest)"
    using t by (simp add: dict_get_def)
  show ?case
    unfolding fallback_step[OF sub] cc scan_append ih ..
qed

lemma fallback_loop_scan:
  "fallback_loop env n fallback_categories = scan fallback_candidates env n fallback_queries"
  unfolding fallback_queries_def
  by (rule fallback_loop_scan_gen)
     (simp add: fallback_categories_def SEARCH_TERMS_def ascii_eq_iff)

lemma unusable_Cons_Suc: "unusable cand env n (t # ts) (Suc i) = unusable cand env (Suc n) ts i"
  by (simp add: unusable_def)

lemma scan_all_unusable:
  "\<forall>i<length ts. unusable cand env n ts i \<Longrightarrow> scan cand env n ts = (map Http_get ts, Inr None)"
proof (induction ts arbitrary: n)
  case Nil
  then show ?case by simp
next
  case (Cons t ts)
  have "unusable cand env n (t # ts) 0" using Cons.prems by auto
  then obtain d where d: "search env n t = Inr d" "cand d = []"
    by (auto simp: unusable_def split: sum.splits)
  have "\<forall>i<length ts. unusable cand env (Suc n) ts i"
    using Cons.prems unusable_Cons_Suc[of cand env n t ts] by auto
  from Cons.IH[OF this] d show ?case by simp
qed

lemma scan_first:
  assumes "m < length ts" "\<forall>i<m. unusable cand env n ts i"
  shows "search env (n + m) (ts ! m) = Inl e \<Longrightarrow>
           scan cand env n ts = (map Http_get (take (Suc m) ts), Inl e)"
    and "search env (n + m) (ts ! m) = Inr d \<Longrightarrow> cand d \<noteq> [] \<Longrightarrow>
           scan cand env n ts = (map Http_get (take (Suc m) ts),
             Inr (Some (large2x (cand d ! (choice_draw env mod length (cand d))))))"
  using assms
proof (induction ts arbitrary: n m)
  case Nil
  { case 1 then show ?case by simp }
  { case 2 then show ?case by simp }
next
  case (Cons t ts)
  { case 1
    show ?case
    proof (cases m)
      case 0
      then show ?thesis using 1 by simp
    next
      case (Suc k)
      have "unusable cand env n (t # ts) 0" using 1 Suc by auto
      then obtain d0 where d0: "search env n t = Inr d0" "cand d0 = []"
        by (auto simp: unusable_def split: sum.splits)
      have u: "\<forall>i<k. unusable cand env (Suc n) ts i"
        using 1(3) Suc unusable_Cons_Suc[of cand env n t ts] by auto
      have "scan cand env (Suc n) ts = (map Http_get (take (Suc k) ts), Inl e)"
        using Cons.IH(1)[of "Suc n" k] 1 Suc u by simp
      then show ?thesis using d0 Suc by simp
    qed }
  { case 2
    show ?case
    proof (cases m)
      case 0
      then show ?thesis using 2 by simp
    next
      case (Suc k)
      have "unusable cand env n (t # ts) 0" using 2 Suc by auto
      then obtain d0 where d0: "search env n t = Inr d0" "cand d0 = []"
        by (auto simp: unusable_def split: sum.splits)
      have u: "\<forall>i<k. unusable cand env (Suc n) ts i"
        using 2(4) Suc unusable_Cons_Suc[of cand env n t ts] by auto
      have "scan cand env (Suc n) ts = (map Http_get (take (Suc k) ts),
             Inr (Some (large2x (cand d ! (choice_draw env mod length (cand d))))))"
        using Cons.IH(2)[of "Suc n" k] 2 Suc u by simp
      then show ?thesis using d0 Suc by simp
    qed }
qed

lemma first_not_unusable:
  "(\<forall>i<length ts. unusable cand env n ts i) \<or>
   (\<exists>m<length ts. (\<forall>i<m. unusable cand env n ts i) \<and> \<not> unusable cand env n ts m)"
proof (cases "\<forall>i<length ts. unusable cand env n ts i")
  case True
  then show ?thesis by simp
next
  case False
  then have ex: "\<exists>m. m < length ts \<and> \<not> unusable cand env n ts m" by auto
  define m where "m = (LEAST m. m < length ts \<and> \<not> unusable cand env n ts m)"
  have "m < length ts \<and> \<not> unusable cand env n ts m"
    unfolding m_def using ex by (rule LeastI_ex)
  moreover have "\<forall>i<m. unusable cand env n ts i"
  proof (intro allI impI)
    fix i assume "i < m"
    then have "\<not> (i < length ts \<and> \<not> unusable cand env n ts i)"
      unfolding m_def by (rule not_less_Least)
    moreover have "i < length ts" using \<open>i < m\<close> calculation \<open>m < length ts \<and> _\<close> by simp
    ultimately show "unusable cand env n ts i" by simp
  qed
  ultimately show ?thesis by blast
qed

lemma not_unusable_cases:
  assumes "\<not> unusable cand env n ts m"
  obtains e where "search env (n + m) (ts ! m) = Inl e"
  | d where "search env (n + m) (ts ! m) = Inr d" "cand d \<noteq> []"
  using assms by (auto simp: unusable_def split: sum.splits)

lemma search_terms_nonempty: "search_terms category \<noteq> []"
  using length_search_terms[of category] by auto

lemma try_with_key:
  assumes "\<not> no_credential env"
  shows "get_pexels_image_try env category =
     (case scan primary_candidates env 0 (search_terms category) of
        (evs, Inr None) \<Rightarrow>
          (case scan fallback_candidates env (length evs) fallback_queries of
             (evs', Inr None) \<Rightarrow>
               (evs @ evs' @ [Log_warning (ascii ''No images found on Pexels for any search terms'')],
                Inr None)
           | (evs', r) \<Rightarrow> (evs @ evs', r))
      | (evs, r) \<Rightarrow> (evs, r))"
proof -
  obtain k where k: "pexels_api_key env = Some k" "k \<noteq> []"
    using assms by (auto simp: no_credential_def)
  show ?thesis
    unfolding get_pexels_image_try_def Let_def k SEARCH_TERMS_fallback(1)
    using k(2) search_terms_nonempty[of category]
    by (simp add: primary_loop_scan fallback_loop_scan search_terms_def)
qed

lemma resolver_no_credential:
  assumes "no_credential env"
  shows "get_pexels_image env category =
           ([Log_error (ascii ''PEXELS_API_KEY not found in environment variables'')], Inr None)"
  using assms
  by (auto simp: no_credential_def get_pexels_image_def get_pexels_image_try_def Let_def)

lemma resolver_primary_found:
  assumes "\<not> no_credential env" "m < length (search_terms category)"
    "\<forall>i<m. unusable primary_candidates env 0 (search_terms category) i"
    "search env m (search_terms category ! m) = Inr d" "primary_candidates d \<noteq> []"
  shows "get_pexels_image env category =
     (map Http_get (take (Suc m) (search_terms category)),
      Inr (Some (large2x (primary_candidates d ! (choice_draw env mod length (primary_candidates d))))))"
  using scan_first(2)[of m "search_terms category" primary_candidates env 0 d] assms
  by (simp add: get_pexels_image_def try_with_key)

lemma resolver_primary_raises:
  assumes "\<not> no_credential env" "m < length (search_terms category)"
    "\<forall>i<m. unusable primary_candidates env 0 (search_terms category) i"
    "search env m (search_terms category ! m) = Inl e"
  shows "get_pexels_image env category =
     (map Http_get (take (Suc m) (search_terms category)) @
        [Log_error (ascii ''Error fetching image from Pexels: '' @ exn_str e)], Inr None)"
  using scan_first(1)[of m "search_terms category" primary_candidates env 0 e] assms
  by (simp add: get_pexels_image_def try_with_key)

lemma resolver_fallback_found:
  assumes "\<not> no_credential env"
    "\<forall>i<length (search_terms category). unusable primary_candidates env 0 (search_terms category) i"
    "m < length fallback_queries"
    "\<forall>i<m. unusable fallback_candidates env (length (search_terms category)) fallback_queries i"
    "search env (length (search_terms category) + m) (fallback_queries ! m) = Inr d"
    "fallback_candidates d \<noteq> []"
  shows "get_pexels_image env category =
     (map Http_get (search_terms category @ take (Suc m) fallback_queries),
      Inr (Some (large2x (fallback_candidates d ! (choice_draw env mod length (fallback_candidates d))))))"
  using scan_all_unusable[OF assms(2)]
    scan_first(2)[OF assms(3,4,5,6)] assms(1)
  by (simp add: get_pexels_image_def try_with_key)

lemma resolver_fallback_raises:
  assumes "\<not> no_credential env"
    "\<forall>i<length (search_terms category). unusable primary_candidates env 0 (search_terms category) i"
    "m < length fallback_queries"
    "\<forall>i<m. unusable fallback_candidates env (length (search_terms category)) fallback_queries i"
    "search env (length (search_terms category) + m) (fallback_queries ! m) = Inl e"
  shows "get_pexels_image env category =
     (map Http_get (search_terms category @ take (Suc m) fallback_queries) @
        [Log_error (ascii ''Error fetching image from Pexels: '' @ exn_str e)], Inr None)"
  using scan_all_unusable[OF assms(2)]
    scan_first(1)[OF assms(3,4,5)] assms(1)
  by (simp add: get_pexels_image_def try_with_key)

lemma resolver_nothing_found:
  assumes "\<not> no_credential env"
    "\<forall>i<length (search_terms category). unusable primary_candidates env 0 (search_terms category) i"
    "\<forall>i<length fallback_queries.
        unusable fallback_candidates env (length (search_terms category)) fallback_queries i"
  shows "get_pexels_image env category =
     (map Http_get (search_terms category @ fallback_queries) @
        [Log_warning (ascii ''No images found on Pexels for any search terms'')], Inr None)"
  using scan_all_unusable[OF assms(2)] scan_all_unusable[OF assms(3)] assms(1)
  by (simp add: get_pexels_image_def try_with_key)

lemma list_all_upt: "list_all P [0..<m] \<longleftrightarrow> (\<forall>i<m. P i)"
  by (auto simp: list_all_iff)

lemma candidates_subset:
  "p \<in> set (primary_candidates d) \<Longrightarrow>
     p \<in> set (opt_get (photos d) []) \<and> width p \<ge> 1200 \<and> height p \<ge> 800"
  "p \<in> set (fallback_candidates d) \<Longrightarrow> p \<in> set (opt_get (photos d) [])"
  by (auto simp: primary_candidates_def fallback_candidates_def split: if_splits)

lemma chosen_mem: "xs \<noteq> [] \<Longrightarrow> xs ! (r mod length xs) \<in> set xs"
  by simp

lemma resolver_cases:
  fixes env category
  defines "ts \<equiv> search_terms category"
  defines "gpi \<equiv> get_pexels_image env category"
  shows
  "(no_credential env \<and>
      gpi = ([Log_error (ascii ''PEXELS_API_KEY not found in environment variables'')], Inr None)) \<or>
   (\<not> no_credential env \<and> (\<exists>m d. first_offer primary_candidates env 0 ts m d \<and>
      gpi = (map Http_get (take (Suc m) ts),
        Inr (Some (large2x (primary_candidates d ! (choice_draw env mod length (primary_candidates d)))))))) \<or>
   (\<not> no_credential env \<and> (\<exists>m e. first_raise primary_candidates env 0 ts m e \<and>
      gpi = (map Http_get (take (Suc m) ts) @
              [Log_error (ascii ''Error fetching image from Pexels: '' @ exn_str e)], Inr None))) \<or>
   (\<not> no_credential env \<and> all_unusable primary_candidates env 0 ts \<and>
      (\<exists>m d. first_offer fallback_candidates env (length ts) fallback_queries m d \<and>
      gpi = (map Http_get (ts @ take (Suc m) fallback_queries),
        Inr (Some (large2x (fallback_candidates d ! (choice_draw env mod length (fallback_candidates d)))))))) \<or>
   (\<not> no_credential env \<and> all_unusable primary_candidates env 0 ts \<and>
      (\<exists>m e. first_raise fallback_candidates env (length ts) fallback_queries m e \<and>
      gpi = (map Http_get (ts @ take (Suc m) fallback_queries) @
              [Log_error (ascii ''Error fetching image from Pexels: '' @ exn_str e)], Inr None))) \<or>
   (\<not> no_credential env \<and> all_unusable primary_candidates env 0 ts \<and>
      all_unusable fallback_candidates env (length ts) fallback_queries \<and>
      gpi = (map Http_get (ts @ fallback_queries) @
              [Log_warning (ascii ''No images found on Pexels for any search terms'')], Inr None))"
proof (cases "no_credential env")
  case True
  then show ?thesis using resolver_no_credential[of env category] by (simp add: gpi_def)
next
  case key: False
  from first_not_unusable[of ts primary_candidates env 0]
  show ?thesis
  proof
    assume allp: "\<forall>i<length ts. unusable primary_candidates env 0 ts i"
    then have ap: "all_unusable primary_candidates env 0 ts"
      by (simp add: all_unusable_def list_all_upt)
    from first_not_unusable[of fallback_queries fallback_candidates env "length ts"]
    show ?thesis
    proof
      assume allf: "\<forall>i<length fallback_queries. unusable fallback_candidates env (length ts) fallback_queries i"
      then have "all_unusable fallback_candidates env (length ts) fallback_queries"
        by (simp add: all_unusable_def list_all_upt)
      with key ap resolver_nothing_found[OF key allp[unfolded ts_def] allf[unfolded ts_def]]
      show ?thesis by (simp add: gpi_def ts_def)
    next
      assume "\<exists>m<length fallback_queries.
         (\<forall>i<m. unusable fallback_candidates env (length ts) fallback_queries i) \<and>
         \<not> unusable fallback_candidates env (length ts) fallback_queries m"
      then obtain m where m: "m < length fallback_queries"
        "\<forall>i<m. unusable fallback_candidates env (length ts) fallback_queries i"
        "\<not> unusable fallback_candidates env (length ts) fallback_queries m" by blast
      from m(3) show ?thesis
      proof (cases rule: not_unusable_cases)
        case (1 e)
        then have "first_raise fallback_candidates env (length ts) fallback_queries m e"
          using m by (simp add: first_raise_def list_all_upt)
        moreover have "gpi = (map Http_get (ts @ take (Suc m) fallback_queries) @
              [Log_error (ascii ''Error fetching image from Pexels: '' @ exn_str e)], Inr None)"
          unfolding gpi_def ts_def
          by (rule resolver_fallback_raises[OF key allp[unfolded ts_def] m(1) m(2)[unfolded ts_def] 1[unfolded ts_def]])
        ultimately show ?thesis using key ap by blast
      next
        case (2 d)
        then have "first_offer fallback_candidates env (length ts) fallback_queries m d"
          using m by (simp add: first_offer_def list_all_upt)
        moreover have "gpi = (map Http_get (ts @ take (Suc m) fallback_queries),
          Inr (Some (large2x (fallback_candidates d ! (choice_draw env mod length (fallback_candidates d))))))"
          unfolding gpi_def ts_def
          by (rule resolver_fallback_found[OF key allp[unfolded ts_def] m(1) m(2)[unfolded ts_def] 2(1)[unfolded ts_def] 2(2)])
        ultimately show ?thesis using key ap by blast
      qed
    qed
  next
    assume "\<exists>m<length ts. (\<forall>i<m. unusable primary_candidates env 0 ts i) \<and>
         \<not> unusable primary_candidates env 0 ts m"
    then obtain m where m: "m < length ts" "\<forall>i<m. unusable primary_candidates env 0 ts i"
      "\<not> unusable primary_candidates env 0 ts m" by blast
    from m(3) show ?thesis
    proof (cases rule: not_unusable_cases)
      case (1 e)
      then have "first_raise primary_candidates env 0 ts m e"
        using m by (simp add: first_raise_def list_all_upt)
      moreover have "gpi = (map Http_get (take (Suc m) ts) @
              [Log_error (ascii ''Error fetching image from Pexels: '' @ exn_str e)], Inr None)"
        unfolding gpi_def ts_def
        using resolver_primary_raises[OF key m(1)[unfolded ts_def] m(2)[unfolded ts_def]] 1
        by (simp add: ts_def)
      ultimately show ?thesis using key by blast
    next
      case (2 d)
      then have "first_offer primary_candidates env 0 ts m d"
        using m by (simp add: first_offer_def list_all_upt)
      moreover have "gpi = (map Http_get (take (Suc m) ts),
        Inr (Some (large2x (primary_candidates d ! (choice_draw env mod length (primary_candidates d))))))"
        unfolding gpi_def ts_def
        using resolver_primary_found[OF key m(1)[unfolded ts_def] m(2)[unfolded ts_def]] 2
        by (simp add: ts_def)
      ultimately show ?thesis using key by blast
    qed
  qed
qed

lemma offer_primary:
  assumes "\<not> no_credential env" "first_offer primary_candidates env 0 (search_terms category) m d"
  shows "get_pexels_image env category =
     (map Http_get (take (Suc m) (search_terms category)),
      Inr (Some (large2x (primary_candidates d ! (choice_draw env mod length (primary_candidates d))))))"
  using assms resolver_primary_found[of env m category d]
  by (simp add: first_offer_def list_all_upt)

lemma raise_primary:
  assumes "\<not> no_credential env" "first_raise primary_candidates env 0 (search_terms category) m e"
  shows "get_pexels_image env category =
     (map Http_get (take (Suc m) (search_terms category)) @
        [Log_error (ascii ''Error fetching image from Pexels: '' @ exn_str e)], Inr None)"
  using assms resolver_primary_raises[of env m category e]
  by (simp add: first_raise_def list_all_upt)

lemma raise_fallback:
  assumes "\<not> no_credential env" "all_unusable primary_candidates env 0 (search_terms category)"
    "first_raise fallback_candidates env (length (search_terms category)) fallback_queries m e"
  shows "get_pexels_image env category =
     (map Http_get (search_terms category @ take (Suc m) fallback_queries) @
        [Log_error (ascii ''Error fetching image from Pexels: '' @ exn_str e)], Inr None)"
  using assms resolver_fallback_raises[of env category m e]
  by (simp add: first_raise_def all_unusable_def list_all_upt)

lemma nothing_found:
  assumes "\<not> no_credential env" "all_unusable primary_candidates env 0 (search_terms category)"
    "all_unusable fallback_candidates env (length (search_terms category)) fallback_queries"
  shows "get_pexels_image env category =
     (map Http_get (search_terms category @ fallback_queries) @
        [Log_warning (ascii ''No images found on Pexels for any search terms'')], Inr None)"
  using assms resolver_nothing_found[of env category]
  by (simp add: all_unusable_def list_all_upt)

lemma resolver_None_iff:
  "snd (get_pexels_image env category) = Inr None \<longleftrightarrow>
     no_credential env \<or>
     (\<exists>m e. first_raise primary_candidates env 0 (search_terms category) m e) \<or>
     (all_unusable primary_candidates env 0 (search_terms category) \<and>
        ((\<exists>m e. first_raise fallback_candidates env (length (search_terms category)) fallback_queries m e) \<or>
         all_unusable fallback_candidates env (length (search_terms category)) fallback_queries))"
  (is "?L \<longleftrightarrow> ?R")
proof
  assume ?L
  with resolver_cases[of env category] show ?R by auto
next
  assume r: ?R
  show ?L
  proof (cases "no_credential env")
    case True
    then show ?thesis by (simp add: resolver_no_credential)
  next
    case False
    with r raise_primary[OF False] raise_fallback[OF False] nothing_found[OF False]
    show ?thesis by fastforce
  qed
qed

lemma resolver_Some:
  assumes "snd (get_pexels_image env category) = Inr (Some url)"
  shows "(\<exists>m d p. first_offer primary_candidates env 0 (search_terms category) m d \<and>
            p \<in> set (opt_get (photos d) []) \<and> width p \<ge> 1200 \<and> height p \<ge> 800 \<and>
            url = large2x p \<and>
            fst (get_pexels_image env category) = map Http_get (take (Suc m) (search_terms category))) \<or>
         (all_unusable primary_candidates env 0 (search_terms category) \<and>
          (\<exists>m d p. first_offer fallback_candidates env (length (search_terms category)) fallback_queries m d \<and>
            p \<in> set (opt_get (photos d) []) \<and> url = large2x p \<and>
            fst (get_pexels_image env category) =
              map Http_get (search_terms category @ take (Suc m) fallback_queries)))"
proof -
  from resolver_cases[of env category] assms
  consider
    (P) m d where "first_offer primary_candidates env 0 (search_terms category) m d"
      "get_pexels_image env category = (map Http_get (take (Suc m) (search_terms category)),
        Inr (Some (large2x (primary_candidates d ! (choice_draw env mod length (primary_candidates d))))))"
  | (F) m d where "all_unusable primary_candidates env 0 (search_terms category)"
      "first_offer fallback_candidates env (length (search_terms category)) fallback_queries m d"
      "get_pexels_image env category = (map Http_get (search_terms category @ take (Suc m) fallback_queries),
        Inr (Some (large2x (fallback_candidates d ! (choice_draw env mod length (fallback_candidates d))))))"
    by fastforce
  then show ?thesis
  proof cases
    case P
    let ?p = "primary_candidates d ! (choice_draw env mod length (primary_candidates d))"
    have "?p \<in> set (primary_candidates d)"
      using P(1) by (intro chosen_mem) (simp add: first_offer_def)
    from candidates_subset(1)[OF this] P assms
    have "first_offer primary_candidates env 0 (search_terms category) m d \<and>
            ?p \<in> set (opt_get (photos d) []) \<and> width ?p \<ge> 1200 \<and> height ?p \<ge> 800 \<and>
            url = large2x ?p \<and>
            fst (get_pexels_image env category) = map Http_get (take (Suc m) (search_terms category))"
      by simp
    then show ?thesis by blast
  next
    case F
    let ?p = "fallback_candidates d ! (choice_draw env mod length (fallback_candidates d))"
    have "?p \<in> set (fallback_candidates d)"
      using F(2) by (intro chosen_mem) (simp add: first_offer_def)
    from candidates_subset(2)[OF this] F assms
    have "first_offer fallback_candidates env (length (search_terms category)) fallback_queries m d \<and>
            ?p \<in> set (opt_get (photos d) []) \<and> url = large2x ?p \<and>
            fst (get_pexels_image env category) =
              map Http_get (search_terms category @ take (Suc m) fallback_queries)"
      by simp
    with F(1) show ?thesis by blast
  qed
qed

lemma search_terms_Eid_Celebration:
  "search_terms (ascii ''Eid Celebration'') =
     [ascii ''eid celebration'', ascii ''eid decoration'', ascii ''eid festival'', ascii ''eid lights'']"
  by (simp add: search_terms_def dict_get_def SEARCH_TERMS_def ascii_eq_iff)

lemma upt_small: "[0..<0] = []" "[0..<1] = [0]" "[0..<2] = [0, 1]" "[0..<3] = [0, 1, 2]" "[0..<4] = [0, 1, 2, 3]"
  by (simp_all add: upt_rec)

lemma length_fallback_queries: "length fallback_queries = 12"
  by (simp add: fallback_queries_eq)

text \<open>
  C2, as stated, fails in its last part: the resolver also returns \<open>None\<close> when the
  credential is missing, or when a request raises, although a search term would yield, or
  yields, a photo that passes the filter.
\<close>

theorem resolver_result_counterexample:
  "snd (get_pexels_image
          \<lparr>pexels_api_key = None,
           search = (\<lambda>n q. Inr \<lparr>total_results = Some 1,
                                 photos = Some [\<lparr>width = 4000, height = 3000, large2x = ascii ''https://images.pexels.com/photos/1/a.jpeg''\<rparr>]\<rparr>),
           choice_draw = 0\<rparr>
          (ascii ''Eid Celebration'')) = Inr None \<and>
   primary_candidates \<lparr>total_results = Some 1,
        photos = Some [\<lparr>width = 4000, height = 3000, large2x = ascii ''https://images.pexels.com/photos/1/a.jpeg''\<rparr>]\<rparr>
     = [\<lparr>width = 4000, height = 3000, large2x = ascii ''https://images.pexels.com/photos/1/a.jpeg''\<rparr>] \<and>
   snd (get_pexels_image
          \<lparr>pexels_api_key = Some (ascii ''pexels-key''),
           search = (\<lambda>n q. if n = 0 then Inl (Exn RequestException (ascii ''timeout''))
                           else Inr \<lparr>total_results = Some 1,
                                 photos = Some [\<lparr>width = 4000, height = 3000, large2x = ascii ''https://images.pexels.com/photos/1/a.jpeg''\<rparr>]\<rparr>),
           choice_draw = 0\<rparr>
          (ascii ''Eid Celebration'')) = Inr None"
proof (intro conjI)
  show "snd (get_pexels_image
          \<lparr>pexels_api_key = None,
           search = (\<lambda>n q. Inr \<lparr>total_results = Some 1,
                                 photos = Some [\<lparr>width = 4000, height = 3000, large2x = ascii ''https://images.pexels.com/photos/1/a.jpeg''\<rparr>]\<rparr>),
           choice_draw = 0\<rparr>
          (ascii ''Eid Celebration'')) = Inr None"
    by (simp add: get_pexels_image_def get_pexels_image_try_def)
  show "primary_candidates \<lparr>total_results = Some 1,
        photos = Some [\<lparr>width = 4000, height = 3000, large2x = ascii ''https://images.pexels.com/photos/1/a.jpeg''\<rparr>]\<rparr>
     = [\<lparr>width = 4000, height = 3000, large2x = ascii ''https://images.pexels.com/photos/1/a.jpeg''\<rparr>]"
    by (simp add: primary_candidates_def opt_get_def)
  have "ascii ''pexels-key'' \<noteq> []" by (simp add: ascii_def)
  then show "snd (get_pexels_image
          \<lparr>pexels_api_key = Some (ascii ''pexels-key''),
           search = (\<lambda>n q. if n = 0 then Inl (Exn RequestException (ascii ''timeout''))
                           else Inr \<lparr>total_results = Some 1,
                                 photos = Some [\<lparr>width = 4000, height = 3000, large2x = ascii ''https://images.pexels.com/photos/1/a.jpeg''\<rparr>]\<rparr>),
           choice_draw = 0\<rparr>
          (ascii ''Eid Celebration'')) = Inr None"
    by (simp add: get_pexels_image_def get_pexels_image_try_def SEARCH_TERMS_fallback(1)
          search_terms_Eid_Celebration[unfolded search_terms_def] Let_def)
qed

text \<open>
  C2, amended: for every category name, with a credential, the first of the category's
  search terms whose response offers a photo of width at least 1200 and height at least
  800 ends the search, and the URL returned is that of such a photo of that response; a
  URL is returned without the dimension filter only after every search term of the
  category was answered with no such photo, from the first offering response to the terms
  of the fallback categories "Islamic Patterns", "Geometric Patterns", "Nature & Flowers"
  in that order; and \<open>None\<close> is returned exactly when the credential is missing, or
  the first request not answered with nothing usable raises, or every search term of the
  category and of the fallback categories is answered with nothing usable.
\<close>

theorem resolver_result:
  "(\<not> no_credential env \<and> first_offer primary_candidates env 0 (search_terms category) m d \<longrightarrow>
      (\<exists>p. p \<in> set (opt_get (photos d) []) \<and> width p \<ge> 1200 \<and> height p \<ge> 800 \<and>
           get_pexels_image env category =
             (map Http_get (take (Suc m) (search_terms category)), Inr (Some (large2x p))))) \<and>
   (snd (get_pexels_image env category) = Inr (Some url) \<longrightarrow>
      (\<exists>m d p. first_offer primary_candidates env 0 (search_terms category) m d \<and>
            p \<in> set (opt_get (photos d) []) \<and> width p \<ge> 1200 \<and> height p \<ge> 800 \<and>
            url = large2x p \<and>
            fst (get_pexels_image env category) = map Http_get (take (Suc m) (search_terms category))) \<or>
      (all_unusable primary_candidates env 0 (search_terms category) \<and>
       (\<exists>m d p. first_offer fallback_candidates env (length (search_terms category)) fallback_queries m d \<and>
            p \<in> set (opt_get (photos d) []) \<and> url = large2x p \<and>
            fst (get_pexels_image env category) =
              map Http_get (search_terms category @ take (Suc m) fallback_queries)))) \<and>
   (snd (get_pexels_image env category) = Inr None \<longleftrightarrow>
     no_credential env \<or>
     (\<exists>m e. first_raise primary_candidates env 0 (search_terms category) m e) \<or>
     (all_unusable primary_candidates env 0 (search_terms category) \<and>
        ((\<exists>m e. first_raise fallback_candidates env (length (search_terms category)) fallback_queries m e) \<or>
         all_unusable fallback_candidates env (length (search_terms category)) fallback_queries)))"
proof (intro conjI impI)
  assume a: "\<not> no_credential env \<and> first_offer primary_candidates env 0 (search_terms category) m d"
  let ?p = "primary_candidates d ! (choice_draw env mod length (primary_candidates d))"
  have "?p \<in> set (primary_candidates d)"
    using a by (intro chosen_mem) (simp add: first_offer_def)
  from candidates_subset(1)[OF this] offer_primary[of env category m d] a
  show "\<exists>p. p \<in> set (opt_get (photos d) []) \<and> width p \<ge> 1200 \<and> height p \<ge> 800 \<and>
           get_pexels_image env category =
             (map Http_get (take (Suc m) (search_terms category)), Inr (Some (large2x p)))"
    by blast
next
  assume "snd (get_pexels_image env category) = Inr (Some url)"
  then show "(\<exists>m d p. first_offer primary_candidates env 0 (search_terms category) m d \<and>
            p \<in> set (opt_get (photos d) []) \<and> width p \<ge> 1200 \<and> height p \<ge> 800 \<and>
            url = large2x p \<and>
            fst (get_pexels_image env category) = map Http_get (take (Suc m) (search_terms category))) \<or>
      (all_unusable primary_candidates env 0 (search_terms category) \<and>
       (\<exists>m d p. first_offer fallback_candidates env (length (search_terms category)) fallback_queries m d \<and>
            p \<in> set (opt_get (photos d) []) \<and> url = large2x p \<and>
            fst (get_pexels_image env category) =
              map Http_get (search_terms category @ take (Suc m) fallback_queries)))"
    by (rule resolver_Some)
next
  show "snd (get_pexels_image env category) = Inr None \<longleftrightarrow>
     no_credential env \<or>
     (\<exists>m e. first_raise primary_candidates env 0 (search_terms category) m e) \<or>
     (all_unusable primary_candidates env 0 (search_terms category) \<and>
        ((\<exists>m e. first_raise fallback_candidates env (length (search_terms category)) fallback_queries m e) \<or>
         all_unusable fallback_candidates env (length (search_terms category)) fallback_queries))"
    by (rule resolver_None_iff)
qed

theorem resolver_result_witness:
  "\<not> no_credential
       \<lparr>pexels_api_key = Some (ascii ''pexels-key''),
        search = (\<lambda>n q. if n < 2
           then Inr \<lparr>total_results = Some 5, photos = Some [\<lparr>width = 640, height = 480, large2x = ascii ''small.jpeg''\<rparr>]\<rparr>
           else Inr \<lparr>total_results = Some 2, photos = Some [\<lparr>width = 640, height = 480, large2x = ascii ''small.jpeg''\<rparr>,
                                                             \<lparr>width = 4000, height = 3000, large2x = ascii ''big.jpeg''\<rparr>]\<rparr>),
        choice_draw = 7\<rparr> \<and>
   first_offer primary_candidates
       \<lparr>pexels_api_key = Some (ascii ''pexels-key''),
        search = (\<lambda>n q. if n < 2
           then Inr \<lparr>total_results = Some 5, photos = Some [\<lparr>width = 640, height = 480, large2x = ascii ''small.jpeg''\<rparr>]\<rparr>
           else Inr \<lparr>total_results = Some 2, photos = Some [\<lparr>width = 640, height = 480, large2x = ascii ''small.jpeg''\<rparr>,
                                                             \<lparr>width = 4000, height = 3000, large2x = ascii ''big.jpeg''\<rparr>]\<rparr>),
        choice_draw = 7\<rparr>
       0 (search_terms (ascii ''Eid Celebration'')) 2
       \<lparr>total_results = Some 2, photos = Some [\<lparr>width = 640, height = 480, large2x = ascii ''small.jpeg''\<rparr>,
                                                \<lparr>width = 4000, height = 3000, large2x = ascii ''big.jpeg''\<rparr>]\<rparr> \<and>
   get_pexels_image
       \<lparr>pexels_api_key = Some (ascii ''pexels-key''),
        search = (\<lambda>n q. if n < 2
           then Inr \<lparr>total_results = Some 5, photos = Some [\<lparr>width = 640, height = 480, large2x = ascii ''small.jpeg''\<rparr>]\<rparr>
           else Inr \<lparr>total_results = Some 2, photos = Some [\<lparr>width = 640, height = 480, large2x = ascii ''small.jpeg''\<rparr>,
                                                             \<lparr>width = 4000, height = 3000, large2x = ascii ''big.jpeg''\<rparr>]\<rparr>),
        choice_draw = 7\<rparr>
       (ascii ''Eid Celebration'') =
     ([Http_get (ascii ''eid celebration''), Http_get (ascii ''eid decoration''), Http_get (ascii ''eid festival'')],
      Inr (Some (ascii ''big.jpeg''))) \<and>
   snd (get_pexels_image \<lparr>pexels_api_key = None, search = (\<lambda>n q. Inl (Exn RequestException [])), choice_draw = 0\<rparr>
          (ascii ''Eid Celebration'')) = Inr None"
proof -
  let ?small = "\<lparr>width = 640, height = 480, large2x = ascii ''small.jpeg''\<rparr>"
  let ?big = "\<lparr>width = 4000, height = 3000, large2x = ascii ''big.jpeg''\<rparr>"
  let ?d = "\<lparr>total_results = Some 2, photos = Some [?small, ?big]\<rparr>"
  let ?env = "\<lparr>pexels_api_key = Some (ascii ''pexels-key''),
        search = (\<lambda>n q. if n < 2
           then Inr \<lparr>total_results = Some 5, photos = Some [?small]\<rparr>
           else Inr ?d),
        choice_draw = 7\<rparr>"
  let ?none = "\<lparr>pexels_api_key = None, search = (\<lambda>n q. Inl (Exn RequestException [])), choice_draw = 0\<rparr>"
  have k: "\<not> no_credential ?env"
    by (simp add: no_credential_def ascii_def)
  have o: "first_offer primary_candidates ?env 0 (search_terms (ascii ''Eid Celebration'')) 2 ?d"
    by (simp add: first_offer_def search_terms_Eid_Celebration upt_small unusable_def
          primary_candidates_def opt_get_def)
  have h: "\<not> no_credential ?env \<and>
           first_offer primary_candidates ?env 0 (search_terms (ascii ''Eid Celebration'')) 2 ?d"
    using k o by (rule conjI)
  from resolver_result[THEN conjunct1, THEN mp, OF h]
  obtain p where p: "p \<in> set (opt_get (photos ?d) [])" "width p \<ge> 1200"
    "get_pexels_image ?env (ascii ''Eid Celebration'') =
       (map Http_get (take (Suc 2) (search_terms (ascii ''Eid Celebration''))), Inr (Some (large2x p)))"
    by blast
  from p(1,2) have "p = ?big" by (auto simp: opt_get_def)
  with p(3) have r: "get_pexels_image ?env (ascii ''Eid Celebration'') =
     ([Http_get (ascii ''eid celebration''), Http_get (ascii ''eid decoration''), Http_get (ascii ''eid festival'')],
      Inr (Some (ascii ''big.jpeg'')))"
    by (simp add: search_terms_Eid_Celebration)
  have "no_credential ?none" by (simp add: no_credential_def)
  then have n: "snd (get_pexels_image ?none (ascii ''Eid Celebration'')) = Inr None"
    using resolver_result[of ?none "ascii ''Eid Celebration''", THEN conjunct2, THEN conjunct2] by blast
  show ?thesis using k o r n by (intro conjI)
qed

text \<open>
  C7: without a credential the resolver fails at once, with an error logged and no request
  made, which differs from the case of no results (all requests made, then a warning
  logged), and no default URL is put in its place; an exception raised by a request of
  either loop is caught in the resolver, logged as an error and turned into the result
  \<open>None\<close>: no call of the resolver ends in an exception.
\<close>

theorem resolver_failures:
  "(no_credential env \<longrightarrow>
      get_pexels_image env category =
        ([Log_error (ascii ''PEXELS_API_KEY not found in environment variables'')], Inr None)) \<and>
   (\<not> no_credential env \<and> all_unusable primary_candidates env 0 (search_terms category) \<and>
      all_unusable fallback_candidates env (length (search_terms category)) fallback_queries \<longrightarrow>
      get_pexels_image env category =
        (map Http_get (search_terms category @ fallback_queries) @
           [Log_warning (ascii ''No images found on Pexels for any search terms'')], Inr None)) \<and>
   (\<not> no_credential env \<and> first_raise primary_candidates env 0 (search_terms category) m e \<longrightarrow>
      get_pexels_image env category =
        (map Http_get (take (Suc m) (search_terms category)) @
           [Log_error (ascii ''Error fetching image from Pexels: '' @ exn_str e)], Inr None)) \<and>
   (\<not> no_credential env \<and> all_unusable primary_candidates env 0 (search_terms category) \<and>
      first_raise fallback_candidates env (length (search_terms category)) fallback_queries m e \<longrightarrow>
      get_pexels_image env category =
        (map Http_get (search_terms category @ take (Suc m) fallback_queries) @
           [Log_error (ascii ''Error fetching image from Pexels: '' @ exn_str e)], Inr None)) \<and>
   (\<exists>evs r. get_pexels_image env category = (evs, Inr r))"
proof -
  have "\<exists>evs r. get_pexels_image env category = (evs, Inr r)"
    by (cases "get_pexels_image_try env category")
       (auto simp: get_pexels_image_def split: sum.splits)
  then show ?thesis
    using resolver_no_credential[of env category] nothing_found[of env category]
      raise_primary[of env category m e] raise_fallback[of env category m e]
    by blast
qed

theorem resolver_failures_witness:
  "get_pexels_image
     \<lparr>pexels_api_key = None, search = (\<lambda>n q. Inr \<lparr>total_results = Some 0, photos = Some []\<rparr>), choice_draw = 0\<rparr>
     (ascii ''Eid Celebration'') =
     ([Log_error (ascii ''PEXELS_API_KEY not found in environment variables'')], Inr None) \<and>
   get_pexels_image
     \<lparr>pexels_api_key = Some (ascii ''pexels-key''),
      search = (\<lambda>n q. Inr \<lparr>total_results = Some 0, photos = Some []\<rparr>), choice_draw = 0\<rparr>
     (ascii ''Eid Celebration'') =
     (map Http_get (search_terms (ascii ''Eid Celebration'') @ fallback_queries) @
        [Log_warning (ascii ''No images found on Pexels for any search terms'')], Inr None) \<and>
   get_pexels_image
     \<lparr>pexels_api_key = Some (ascii ''pexels-key''),
      search = (\<lambda>n q. Inl (Exn RequestException (ascii ''timeout''))), choice_draw = 0\<rparr>
     (ascii ''Eid Celebration'') =
     ([Http_get (ascii ''eid celebration''),
       Log_error (ascii ''Error fetching image from Pexels: '' @ ascii ''timeout'')], Inr None) \<and>
   get_pexels_image
     \<lparr>pexels_api_key = Some (ascii ''pexels-key''),
      search = (\<lambda>n q. if n = 5 then Inl (Exn RequestException (ascii ''timeout''))
                       else Inr \<lparr>total_results = Some 0, photos = Some []\<rparr>), choice_draw = 0\<rparr>
     (ascii ''Eid Celebration'') =
     (map Http_get (search_terms (ascii ''Eid Celebration'') @ [ascii ''islamic pattern'', ascii ''arabic pattern'']) @
        [Log_error (ascii ''Error fetching image from Pexels: '' @ ascii ''timeout'')], Inr None)"
proof (intro conjI)
  let ?cat = "ascii ''Eid Celebration''"
  let ?empty = "Inr \<lparr>total_results = Some 0, photos = Some []\<rparr> :: exn + search_data"
  let ?e = "Exn RequestException (ascii ''timeout'')"
  have key: "ascii ''pexels-key'' \<noteq> []" by (simp add: ascii_def)
  have c0: "primary_candidates \<lparr>total_results = Some 0, photos = Some []\<rparr> = []"
    "fallback_candidates \<lparr>total_results = Some 0, photos = Some []\<rparr> = []"
    by (simp_all add: primary_candidates_def fallback_candidates_def opt_get_def)
  show "get_pexels_image
     \<lparr>pexels_api_key = None, search = (\<lambda>n q. ?empty), choice_draw = 0\<rparr> ?cat =
     ([Log_error (ascii ''PEXELS_API_KEY not found in environment variables'')], Inr None)"
    by (rule resolver_failures[THEN conjunct1, THEN mp]) (simp add: no_credential_def)
  show "get_pexels_image
     \<lparr>pexels_api_key = Some (ascii ''pexels-key''), search = (\<lambda>n q. ?empty), choice_draw = 0\<rparr> ?cat =
     (map Http_get (search_terms ?cat @ fallback_queries) @
        [Log_warning (ascii ''No images found on Pexels for any search terms'')], Inr None)"
    by (rule resolver_failures[THEN conjunct2, THEN conjunct1, THEN mp])
       (simp add: no_credential_def key all_unusable_def list_all_iff unusable_def c0)
  have "get_pexels_image
     \<lparr>pexels_api_key = Some (ascii ''pexels-key''), search = (\<lambda>n q. Inl ?e), choice_draw = 0\<rparr> ?cat =
     (map Http_get (take (Suc 0) (search_terms ?cat)) @
        [Log_error (ascii ''Error fetching image from Pexels: '' @ exn_str ?e)], Inr None)"
    by (rule resolver_failures[THEN conjunct2, THEN conjunct2, THEN conjunct1, THEN mp])
       (simp add: no_credential_def key first_raise_def search_terms_Eid_Celebration)
  then show "get_pexels_image
     \<lparr>pexels_api_key = Some (ascii ''pexels-key''), search = (\<lambda>n q. Inl ?e), choice_draw = 0\<rparr> ?cat =
     ([Http_get (ascii ''eid celebration''),
       Log_error (ascii ''Error fetching image from Pexels: '' @ ascii ''timeout'')], Inr None)"
    by (simp add: search_terms_Eid_Celebration)
  have "get_pexels_image
     \<lparr>pexels_api_key = Some (ascii ''pexels-key''),
      search = (\<lambda>n q. if n = 5 then Inl ?e else ?empty), choice_draw = 0\<rparr> ?cat =
     (map Http_get (search_terms ?cat @ take (Suc 1) fallback_queries) @
        [Log_error (ascii ''Error fetching image from Pexels: '' @ exn_str ?e)], Inr None)"
    by (rule resolver_failures[THEN conjunct2, THEN conjunct2, THEN conjunct2, THEN conjunct1, THEN mp])
       (simp add: no_credential_def key first_raise_def all_unusable_def list_all_iff unusable_def c0
          length_search_terms length_fallback_queries)
  then show "get_pexels_image
     \<lparr>pexels_api_key = Some (ascii ''pexels-key''),
      search = (\<lambda>n q. if n = 5 then Inl ?e else ?empty), choice_draw = 0\<rparr> ?cat =
     (map Http_get (search_terms ?cat @ [ascii ''islamic pattern'', ascii ''arabic pattern'']) @
        [Log_error (ascii ''Error fetching image from Pexels: '' @ ascii ''timeout'')], Inr None)"
    by (simp add: fallback_queries_eq)
qed

section \<open>The resolver of the package utils\<close>

lemma utils_no_key:
  "no_key env api_key \<Longrightarrow>
     utils_get_pexels_image env query api_key mr =
       ([], Inl (Exn ValueError
          (ascii ''Pexels API key not found. Please set PEXELS_API_KEY in your .env file'')))"
  by (auto simp: no_key_def no_credential_def utils_get_pexels_image_def)

lemma utils_with_key:
  "\<not> no_key env api_key \<Longrightarrow>
     utils_get_pexels_image env query api_key 3 = attempts env query 3 [0, 1, 2]"
  by (auto simp: no_key_def no_credential_def utils_get_pexels_image_def upt_small
           split: option.splits)

lemma attempts_events:
  "set (fst (attempts env query mr as)) \<subseteq> {Http_get query, Sleep 1}"
  by (induction as) (auto simp: random_choice_def split: sum.splits option.splits prod.splits)

lemma transport_failure_iff:
  "transport_failure env query i \<longleftrightarrow> (\<exists>e. search env i query = Inl e \<and> exn_class_of e = RequestException)"
  by (auto simp: transport_failure_def split: sum.splits)

lemma all_less_3: "(\<forall>i<3. P i) \<longleftrightarrow> P (0::nat) \<and> P 1 \<and> P 2"
  "(\<forall>i<2. P i) \<longleftrightarrow> P (0::nat) \<and> P 1" "(\<forall>i<1. P i) \<longleftrightarrow> P (0::nat)"
  by (auto simp: less_Suc_eq numeral_3_eq_3 numeral_2_eq_2)

lemma ex_less_3: "(\<exists>m<3. P m) \<longleftrightarrow> P (0::nat) \<or> P 1 \<or> P 2"
proof -
  have "(\<exists>m<3. P m) \<longleftrightarrow> \<not> (\<forall>m<3. \<not> P m)" by blast
  then show ?thesis unfolding all_less_3 by blast
qed

lemma attempts_all_fail:
  assumes "transport_failure env query 0" "transport_failure env query 1"
    "search env 2 query = Inl e" "exn_class_of e = RequestException"
  shows "attempts env query 3 [0, 1, 2] =
           ([Http_get query, Sleep 1, Http_get query, Sleep 1, Http_get query], Inl e)"
  using assms by (auto simp: transport_failure_iff)

lemma attempts_found:
  assumes "m < 3" "\<forall>i<m. transport_failure env query i" "search env m query = Inr d"
    "photos d = Some ps" "ps \<noteq> []"
  shows "snd (attempts env query 3 [0, 1, 2]) = Inr (Some (large2x (ps ! (choice_draw env mod length ps))))"
proof -
  from assms(1) consider "m = 0" | "m = 1" | "m = 2" by linarith
  then show ?thesis
    using assms(2-) by cases (auto simp: transport_failure_iff random_choice_def all_less_3)
qed

lemma attempts_None_iff:
  "snd (attempts env query 3 [0, 1, 2]) = Inr None \<longleftrightarrow>
     (\<exists>m<3. (\<forall>i<m. transport_failure env query i) \<and>
        (\<exists>d. search env m query = Inr d \<and> (photos d = None \<or> photos d = Some [])))"
  unfolding ex_less_3
  by (auto simp: transport_failure_iff random_choice_def all_less_3
           split: sum.splits option.splits prod.splits if_splits)

lemma attempts_Some:
  assumes "snd (attempts env query 3 [0, 1, 2]) = Inr (Some url)"
  shows "\<exists>m<3. \<exists>d ps. (\<forall>i<m. transport_failure env query i) \<and> search env m query = Inr d \<and>
           photos d = Some ps \<and> ps \<noteq> [] \<and> url = large2x (ps ! (choice_draw env mod length ps))"
  using assms unfolding ex_less_3
  by (auto simp: transport_failure_iff random_choice_def all_less_3
           split: sum.splits option.splits prod.splits if_splits)

lemma utils_events:
  "set (fst (utils_get_pexels_image env query api_key mr)) \<subseteq> {Http_get query, Sleep 1}"
  using attempts_events[of env query mr "[0..<nat mr]"]
  by (auto simp: utils_get_pexels_image_def Let_def)

text \<open>
  C10: \<open>get_pexels_image\<close> of the package \<open>utils\<close>, which the UI imports, raises
  \<open>ValueError\<close> when no key is configured; with the default of 3 attempts it raises the
  transport exception of the third attempt again when all three fail; it sends the
  caller's query only, and returns the URL of a photo chosen among all photos of the
  first response, whatever their dimensions; and it returns \<open>None\<close> exactly when the
  first attempt that does not fail is answered with no photos.
\<close>

theorem utils_resolver:
  "(no_key env api_key \<longrightarrow>
      utils_get_pexels_image env query api_key mr =
        ([], Inl (Exn ValueError
           (ascii ''Pexels API key not found. Please set PEXELS_API_KEY in your .env file'')))) \<and>
   (\<not> no_key env api_key \<and> transport_failure env query 0 \<and> transport_failure env query 1 \<and>
    search env 2 query = Inl e \<and> exn_class_of e = RequestException \<longrightarrow>
      utils_get_pexels_image env query api_key 3 =
        ([Http_get query, Sleep 1, Http_get query, Sleep 1, Http_get query], Inl e)) \<and>
   (\<not> no_key env api_key \<and> m < 3 \<and> (\<forall>i<m. transport_failure env query i) \<and>
    search env m query = Inr d \<and> photos d = Some ps \<and> ps \<noteq> [] \<longrightarrow>
      snd (utils_get_pexels_image env query api_key 3) =
        Inr (Some (large2x (ps ! (choice_draw env mod length ps))))) \<and>
   (\<not> no_key env api_key \<and> snd (utils_get_pexels_image env query api_key 3) = Inr (Some url) \<longrightarrow>
      (\<exists>m<3. \<exists>d ps. (\<forall>i<m. transport_failure env query i) \<and> search env m query = Inr d \<and>
           photos d = Some ps \<and> ps \<noteq> [] \<and> url = large2x (ps ! (choice_draw env mod length ps)))) \<and>
   set (fst (utils_get_pexels_image env query api_key mr)) \<subseteq> {Http_get query, Sleep 1} \<and>
   (\<not> no_key env api_key \<longrightarrow>
      (snd (utils_get_pexels_image env query api_key 3) = Inr None \<longleftrightarrow>
         (\<exists>m<3. (\<forall>i<m. transport_failure env query i) \<and>
            (\<exists>d. search env m query = Inr d \<and> (photos d = None \<or> photos d = Some [])))))"
proof (intro conjI impI)
  assume "no_key env api_key"
  then show "utils_get_pexels_image env query api_key mr =
        ([], Inl (Exn ValueError
           (ascii ''Pexels API key not found. Please set PEXELS_API_KEY in your .env file'')))"
    by (rule utils_no_key)
next
  assume a: "\<not> no_key env api_key \<and> transport_failure env query 0 \<and> transport_failure env query 1 \<and>
    search env 2 query = Inl e \<and> exn_class_of e = RequestException"
  then have nk: "\<not> no_key env api_key" by blast
  show "utils_get_pexels_image env query api_key 3 =
        ([Http_get query, Sleep 1, Http_get query, Sleep 1, Http_get query], Inl e)"
    unfolding utils_with_key[OF nk] using a by (intro attempts_all_fail) blast+
next
  assume a: "\<not> no_key env api_key \<and> m < 3 \<and> (\<forall>i<m. transport_failure env query i) \<and>
    search env m query = Inr d \<and> photos d = Some ps \<and> ps \<noteq> []"
  then have nk: "\<not> no_key env api_key" by blast
  show "snd (utils_get_pexels_image env query api_key 3) =
        Inr (Some (large2x (ps ! (choice_draw env mod length ps))))"
    unfolding utils_with_key[OF nk] using a by (intro attempts_found[of m env query d ps]) blast+
next
  assume a: "\<not> no_key env api_key \<and> snd (utils_get_pexels_image env query api_key 3) = Inr (Some url)"
  then have nk: "\<not> no_key env api_key" by blast
  from a have "snd (attempts env query 3 [0, 1, 2]) = Inr (Some url)"
    unfolding utils_with_key[OF nk] by blast
  then show "\<exists>m<3. \<exists>d ps. (\<forall>i<m. transport_failure env query i) \<and> search env m query = Inr d \<and>
           photos d = Some ps \<and> ps \<noteq> [] \<and> url = large2x (ps ! (choice_draw env mod length ps))"
    by (rule attempts_Some)
next
  show "set (fst (utils_get_pexels_image env query api_key mr)) \<subseteq> {Http_get query, Sleep 1}"
    by (rule utils_events)
next
  assume nk: "\<not> no_key env api_key"
  show "snd (utils_get_pexels_image env query api_key 3) = Inr None \<longleftrightarrow>
         (\<exists>m<3. (\<forall>i<m. transport_failure env query i) \<and>
            (\<exists>d. search env m query = Inr d \<and> (photos d = None \<or> photos d = Some [])))"
    unfolding utils_with_key[OF nk] by (rule attempts_None_iff)
qed

theorem utils_resolver_witness:
  "utils_get_pexels_image
     \<lparr>pexels_api_key = None, search = (\<lambda>n q. Inr \<lparr>total_results = Some 0, photos = Some []\<rparr>), choice_draw = 0\<rparr>
     (ascii ''islamic patterns'') None 3 =
     ([], Inl (Exn ValueError
           (ascii ''Pexels API key not found. Please set PEXELS_API_KEY in your .env file''))) \<and>
   utils_get_pexels_image
     \<lparr>pexels_api_key = Some (ascii ''pexels-key''),
      search = (\<lambda>n q. Inl (Exn RequestException (ascii ''timeout''))), choice_draw = 0\<rparr>
     (ascii ''islamic patterns'') None 3 =
     ([Http_get (ascii ''islamic patterns''), Sleep 1, Http_get (ascii ''islamic patterns''), Sleep 1,
       Http_get (ascii ''islamic patterns'')],
      Inl (Exn RequestException (ascii ''timeout''))) \<and>
   snd (utils_get_pexels_image
     \<lparr>pexels_api_key = Some (ascii ''pexels-key''),
      search = (\<lambda>n q. if n = 0 then Inl (Exn RequestException (ascii ''timeout''))
                      else Inr \<lparr>total_results = Some 1,
                                photos = Some [\<lparr>width = 64, height = 48, large2x = ascii ''tiny.jpeg''\<rparr>]\<rparr>),
      choice_draw = 5\<rparr>
     (ascii ''islamic patterns'') None 3) = Inr (Some (ascii ''tiny.jpeg'')) \<and>
   snd (utils_get_pexels_image
     \<lparr>pexels_api_key = Some (ascii ''pexels-key''),
      search = (\<lambda>n q. Inr \<lparr>total_results = Some 0, photos = Some []\<rparr>), choice_draw = 0\<rparr>
     (ascii ''islamic patterns'') None 3) = Inr None"
proof (intro conjI)
  let ?q = "ascii ''islamic patterns''"
  let ?e = "Exn RequestException (ascii ''timeout'')"
  let ?tiny = "\<lparr>width = 64, height = 48, large2x = ascii ''tiny.jpeg''\<rparr>"
  have key: "ascii ''pexels-key'' \<noteq> []" by (simp add: ascii_def)
  show "utils_get_pexels_image
     \<lparr>pexels_api_key = None, search = (\<lambda>n q. Inr \<lparr>total_results = Some 0, photos = Some []\<rparr>), choice_draw = 0\<rparr>
     ?q None 3 =
     ([], Inl (Exn ValueError
           (ascii ''Pexels API key not found. Please set PEXELS_API_KEY in your .env file'')))"
    by (rule utils_resolver[THEN conjunct1, THEN mp]) (simp add: no_key_def no_credential_def)
  show "utils_get_pexels_image
     \<lparr>pexels_api_key = Some (ascii ''pexels-key''), search = (\<lambda>n q. Inl ?e), choice_draw = 0\<rparr>
     ?q None 3 =
     ([Http_get ?q, Sleep 1, Http_get ?q, Sleep 1, Http_get ?q], Inl ?e)"
    by (rule utils_resolver[THEN conjunct2, THEN conjunct1, THEN mp])
       (simp add: no_key_def no_credential_def key transport_failure_def)
  have "snd (utils_get_pexels_image
     \<lparr>pexels_api_key = Some (ascii ''pexels-key''),
      search = (\<lambda>n q. if n = 0 then Inl ?e else Inr \<lparr>total_results = Some 1, photos = Some [?tiny]\<rparr>),
      choice_draw = 5\<rparr> ?q None 3) =
      Inr (Some (large2x ([?tiny] ! (choice_draw \<lparr>pexels_api_key = Some (ascii ''pexels-key''),
      search = (\<lambda>n q. if n = 0 then Inl ?e else Inr \<lparr>total_results = Some 1, photos = Some [?tiny]\<rparr>),
      choice_draw = 5\<rparr> mod length [?tiny]))))"
    by (rule utils_resolver[where m = 1 and d = "\<lparr>total_results = Some 1, photos = Some [?tiny]\<rparr>",
          THEN conjunct2, THEN conjunct2, THEN conjunct1, THEN mp])
       (simp add: no_key_def no_credential_def key transport_failure_def)
  then show "snd (utils_get_pexels_image
     \<lparr>pexels_api_key = Some (ascii ''pexels-key''),
      search = (\<lambda>n q. if n = 0 then Inl ?e else Inr \<lparr>total_results = Some 1, photos = Some [?tiny]\<rparr>),
      choice_draw = 5\<rparr> ?q None 3) = Inr (Some (ascii ''tiny.jpeg''))"
    by simp
  have "\<exists>m<3. (\<forall>i<m. transport_failure \<lparr>pexels_api_key = Some (ascii ''pexels-key''),
      search = (\<lambda>n q. Inr \<lparr>total_results = Some 0, photos = Some []\<rparr>), choice_draw = 0\<rparr> ?q i) \<and>
            (\<exists>d. search \<lparr>pexels_api_key = Some (ascii ''pexels-key''),
      search = (\<lambda>n q. Inr \<lparr>total_results = Some 0, photos = Some []\<rparr>), choice_draw = 0\<rparr> m ?q = Inr d \<and>
               (photos d = None \<or> photos d = Some []))"
    by (intro exI[of _ 0]) simp
  moreover have "\<not> no_key \<lparr>pexels_api_key = Some (ascii ''pexels-key''),
      search = (\<lambda>n q. Inr \<lparr>total_results = Some 0, photos = Some []\<rparr>), choice_draw = 0\<rparr> None"
    by (simp add: no_key_def no_credential_def key)
  ultimately show "snd (utils_get_pexels_image
     \<lparr>pexels_api_key = Some (ascii ''pexels-key''),
      search = (\<lambda>n q. Inr \<lparr>total_results = Some 0, photos = Some []\<rparr>), choice_draw = 0\<rparr>
     ?q None 3) = Inr None"
    using utils_resolver[where mr = 3 and api_key = None and query = ?q and env = "\<lparr>pexels_api_key = Some (ascii ''pexels-key''),
      search = (\<lambda>n q. Inr \<lparr>total_results = Some 0, photos = Some []\<rparr>), choice_draw = 0\<rparr>"]
    by blast
qed

section \<open>The background image of the document\<close>

lemma download_fails_iff:
  "download_fails download url i \<longleftrightarrow>
     (\<exists>e. download i url = Inl e \<and> (exn_class_of e = RequestException \<or> exn_class_of e = IOError))"
  by (auto simp: download_fails_def split: sum.splits)

lemma background_image_unfold:
  "background_image download url =
     (case retry_loop download url [0, 1, 2] None of
        (evs, Inl e) \<Rightarrow> (evs, Inl e)
      | (evs, Inr None) \<Rightarrow> (evs, Inl (Exn NameError (ascii ''bg_image'')))
      | (evs, Inr (Some bg_image)) \<Rightarrow> (evs, Inr bg_image))"
  by (simp add: background_image_def max_retries_def upt_small)

lemma background_all_fail:
  assumes "download_fails download url 0" "download_fails download url 1"
    "download 2 url = Inl e" "exn_class_of e = RequestException \<or> exn_class_of e = IOError"
  shows "background_image download url =
     ([Http_get url, Sleep 1, Http_get url, Sleep 1, Http_get url,
       St_warning (ascii ''Could not load background image. Using solid background instead. Error: '' @ exn_str e)],
      Inr (Image_new (ascii ''RGB'') (2100, 2970) (255, 255, 255)))"
  using assms
  by (auto simp: background_image_unfold download_fails_iff max_retries_def retry_delay_def)

lemma background_canvas_iff:
  "snd (background_image download url) = Inr (Image_new (ascii ''RGB'') (2100, 2970) (255, 255, 255)) \<longleftrightarrow>
     download_fails download url 0 \<and> download_fails download url 1 \<and> download_fails download url 2"
  by (auto simp: background_image_unfold download_fails_iff max_retries_def retry_delay_def
           split: sum.splits prod.splits option.splits)

lemma background_events:
  "fst (background_image download url) = [Http_get url] \<or>
   fst (background_image download url) = [Http_get url, Sleep 1, Http_get url] \<or>
   fst (background_image download url) = [Http_get url, Sleep 1, Http_get url, Sleep 1, Http_get url] \<or>
   (\<exists>e. fst (background_image download url) =
      [Http_get url, Sleep 1, Http_get url, Sleep 1, Http_get url,
       St_warning (ascii ''Could not load background image. Using solid background instead. Error: '' @ exn_str e)])"
  by (auto simp: background_image_unfold max_retries_def retry_delay_def
           split: sum.splits prod.splits option.splits)

lemma background_downloads:
  "length (filter (\<lambda>ev. ev = Http_get url) (fst (background_image download url))) \<le> 3"
  using background_events[of download url] by auto

text \<open>
  C1: \<open>create_pdf_card\<close> attempts the download of the background image at most 3
  times, and sleeps 1 second after a failed attempt that another attempt follows; exactly
  when all 3 attempts fail (each raises a \<open>RequestException\<close> or an \<open>IOError\<close>), the
  background is the white RGB canvas of size 2100 x 2970, with no fourth download, a
  warning shown, and rendering going on with that canvas.
\<close>

theorem background_retry:
  "length (filter (\<lambda>ev. ev = Http_get url) (fst (background_image download url))) \<le> 3 \<and>
   (fst (background_image download url) = [Http_get url] \<or>
    fst (background_image download url) = [Http_get url, Sleep 1, Http_get url] \<or>
    fst (background_image download url) = [Http_get url, Sleep 1, Http_get url, Sleep 1, Http_get url] \<or>
    (\<exists>e. fst (background_image download url) =
       [Http_get url, Sleep 1, Http_get url, Sleep 1, Http_get url,
        St_warning (ascii ''Could not load background image. Using solid background instead. Error: '' @ exn_str e)])) \<and>
   (snd (background_image download url) = Inr (Image_new (ascii ''RGB'') (2100, 2970) (255, 255, 255)) \<longleftrightarrow>
      download_fails download url 0 \<and> download_fails download url 1 \<and> download_fails download url 2) \<and>
   (download_fails download url 0 \<and> download_fails download url 1 \<and> download 2 url = Inl e \<and>
    (exn_class_of e = RequestException \<or> exn_class_of e = IOError) \<longrightarrow>
      background_image download url =
        ([Http_get url, Sleep 1, Http_get url, Sleep 1, Http_get url,
          St_warning (ascii ''Could not load background image. Using solid background instead. Error: '' @ exn_str e)],
         Inr (Image_new (ascii ''RGB'') (2100, 2970) (255, 255, 255))))"
proof (intro conjI impI)
  show "length (filter (\<lambda>ev. ev = Http_get url) (fst (background_image download url))) \<le> 3"
    by (rule background_downloads)
  show "fst (background_image download url) = [Http_get url] \<or>
    fst (background_image download url) = [Http_get url, Sleep 1, Http_get url] \<or>
    fst (background_image download url) = [Http_get url, Sleep 1, Http_get url, Sleep 1, Http_get url] \<or>
    (\<exists>e. fst (background_image download url) =
       [Http_get url, Sleep 1, Http_get url, Sleep 1, Http_get url,
        St_warning (ascii ''Could not load background image. Using solid background instead. Error: '' @ exn_str e)])"
    by (rule background_events)
  show "snd (background_image download url) = Inr (Image_new (ascii ''RGB'') (2100, 2970) (255, 255, 255)) \<longleftrightarrow>
      download_fails download url 0 \<and> download_fails download url 1 \<and> download_fails download url 2"
    by (rule background_canvas_iff)
next
  assume a: "download_fails download url 0 \<and> download_fails download url 1 \<and> download 2 url = Inl e \<and>
    (exn_class_of e = RequestException \<or> exn_class_of e = IOError)"
  show "background_image download url =
        ([Http_get url, Sleep 1, Http_get url, Sleep 1, Http_get url,
          St_warning (ascii ''Could not load background image. Using solid background instead. Error: '' @ exn_str e)],
         Inr (Image_new (ascii ''RGB'') (2100, 2970) (255, 255, 255)))"
    using a by (intro background_all_fail) blast+
qed

theorem background_retry_witness:
  "background_image (\<lambda>attempt url. Inl (Exn RequestException (ascii ''404 Client Error: Not Found'')))
     (ascii ''https://images.pexels.com/photos/1939485/pexels-photo-1939485.jpeg'') =
     ([Http_get (ascii ''https://images.pexels.com/photos/1939485/pexels-photo-1939485.jpeg''), Sleep 1,
       Http_get (ascii ''https://images.pexels.com/photos/1939485/pexels-photo-1939485.jpeg''), Sleep 1,
       Http_get (ascii ''https://images.pexels.com/photos/1939485/pexels-photo-1939485.jpeg''),
       St_warning (ascii ''Could not load background image. Using solid background instead. Error: '' @
                   ascii ''404 Client Error: Not Found'')],
      Inr (Image_new (ascii ''RGB'') (2100, 2970) (255, 255, 255)))"
proof -
  let ?dl = "\<lambda>(attempt::nat) (url::str). Inl (Exn RequestException (ascii ''404 Client Error: Not Found'')) :: exn + nat list"
  let ?url = "ascii ''https://images.pexels.com/photos/1939485/pexels-photo-1939485.jpeg''"
  let ?e = "Exn RequestException (ascii ''404 Client Error: Not Found'')"
  have h: "download_fails ?dl ?url 0 \<and> download_fails ?dl ?url 1 \<and> ?dl 2 ?url = Inl ?e \<and>
    (exn_class_of ?e = RequestException \<or> exn_class_of ?e = IOError)"
    by (simp add: download_fails_def)
  from background_retry[of ?url ?dl ?e, THEN conjunct2, THEN conjunct2, THEN conjunct2, THEN mp, OF h]
  show ?thesis by simp
qed

section \<open>The document of create_pdf\<close>

lemma calls_ok:
  "\<forall>doc op. draw lib doc op = None \<Longrightarrow> calls lib ops doc = Inr (doc @ ops)"
  by (induction ops arbitrary: doc) (auto simp: call_def)

lemma layout_ok:
  assumes "font_setup lib = None" "\<forall>doc op. draw lib doc op = None"
    "wrap lib (remove_emojis message) = Inr lines"
    "title_color theme = Inr tc" "text_color theme = Inr xc"
  shows "layout lib message recipient theme =
           Inr (full_document tc xc (remove_emojis recipient) lines)"
  using assms
  by (cases tc; cases xc)
     (simp add: layout_def EidCard_init_def add_page_def header_def call_def calls_ok
        full_document_def default_font_def)

lemma fallback_layout_ok:
  assumes "font_setup lib = None" "\<forall>doc op. draw lib doc op = None" "title_color theme = Inr tc"
  shows "fallback_layout lib theme = Inr (minimal_document tc)"
  using assms
  by (cases tc)
     (simp add: fallback_layout_def EidCard_init_def add_page_def header_def call_def calls_ok
        minimal_document_def default_font_def)

lemma path_ok:
  assumes "temp_file lib = Inr tmp"
  shows "(case output_path of None \<Rightarrow> temp_file lib
          | Some p \<Rightarrow> if p = [] then temp_file lib else Inr p) = Inr (output_path_or output_path tmp)"
  using assms by (simp add: output_path_or_def split: option.splits)

lemma theme_defaults:
  "title_color Map.empty = Inr (74, 74, 74)" "text_color Map.empty = Inr (0, 0, 0)"
  by (simp_all add: title_color_def text_color_def dict_get_def hex_color_defaults)

lemma text_color_black:
  "text_color [ascii ''text_color'' \<mapsto> ascii ''black''] =
     Inl (Exn ValueError (ascii ''invalid literal for int() with base 16''))"
  "title_color [ascii ''text_color'' \<mapsto> ascii ''black''] = Inr (74, 74, 74)"
proof -
  have "py_int16 (slice 1 3 (ascii ''black'')) =
          Inl (Exn ValueError (ascii ''invalid literal for int() with base 16''))"
    by (simp add: py_int16_def slice_def ascii_def int_space_def hex_digit_def isspace_def)
  then show "text_color [ascii ''text_color'' \<mapsto> ascii ''black''] =
     Inl (Exn ValueError (ascii ''invalid literal for int() with base 16''))"
    by (simp add: text_color_def dict_get_def hex_color_def)
  show "title_color [ascii ''text_color'' \<mapsto> ascii ''black''] = Inr (74, 74, 74)"
    by (simp add: title_color_def dict_get_def hex_color_defaults ascii_eq_iff)
qed

text \<open>
  C6, as stated, fails: with a library in which every call succeeds, \<open>create_pdf\<close>
  raises \<open>ValueError\<close> for a theme whose \<open>text_color\<close> is the colour name
  \<open>black\<close>; and when no document can be written to the path, the exception of the
  handler's own \<open>pdf.output\<close> reaches the caller.
\<close>

theorem create_pdf_counterexample:
  "create_pdf
     \<lparr>font_setup = None, draw = (\<lambda>doc op. None), wrap = (\<lambda>s. Inr [s]),
      temp_file = Inr (ascii ''/tmp/tmpcard.pdf''), pdf_output = (\<lambda>doc path. None)\<rparr>
     (ascii ''Eid Mubarak'') (ascii ''Ali'') [ascii ''text_color'' \<mapsto> ascii ''black''] None =
     Inl (Exn ValueError (ascii ''invalid literal for int() with base 16'')) \<and>
   create_pdf
     \<lparr>font_setup = None, draw = (\<lambda>doc op. None), wrap = (\<lambda>s. Inr [s]),
      temp_file = Inr (ascii ''/tmp/tmpcard.pdf''),
      pdf_output = (\<lambda>doc path. Some (Exn IOError (ascii ''No space left on device'')))\<rparr>
     (ascii ''Eid Mubarak'') (ascii ''Ali'') Map.empty None =
     Inl (Exn IOError (ascii ''No space left on device''))"
proof
  show "create_pdf
     \<lparr>font_setup = None, draw = (\<lambda>doc op. None), wrap = (\<lambda>s. Inr [s]),
      temp_file = Inr (ascii ''/tmp/tmpcard.pdf''), pdf_output = (\<lambda>doc path. None)\<rparr>
     (ascii ''Eid Mubarak'') (ascii ''Ali'') [ascii ''text_color'' \<mapsto> ascii ''black''] None =
     Inl (Exn ValueError (ascii ''invalid literal for int() with base 16''))"
    by (simp add: create_pdf_def layout_def EidCard_init_def add_page_def header_def call_def
          text_color_black)
  show "create_pdf
     \<lparr>font_setup = None, draw = (\<lambda>doc op. None), wrap = (\<lambda>s. Inr [s]),
      temp_file = Inr (ascii ''/tmp/tmpcard.pdf''),
      pdf_output = (\<lambda>doc path. Some (Exn IOError (ascii ''No space left on device'')))\<rparr>
     (ascii ''Eid Mubarak'') (ascii ''Ali'') Map.empty None =
     Inl (Exn IOError (ascii ''No space left on device''))"
    by (simp add: create_pdf_def layout_def fallback_layout_def EidCard_init_def add_page_def
          header_def call_def theme_defaults)
qed

text \<open>
  C6, amended: an exception raised before serialization (font setup, a theme colour that
  is not hexadecimal, a layout call, the wrapping) reaches the caller of \<open>create_pdf\<close>.
  When those steps succeed, for every message and recipient: if \<open>pdf.output\<close> of the
  full document succeeds, the path of that document is returned; if it fails for any
  reason, \<open>create_pdf\<close> falls back to the minimal document that holds only the fixed
  heading and the fixed well-wish sentence, and returns the path when that document
  serializes; an exception of that second serialization reaches the caller.
\<close>

theorem create_pdf_fallback:
  "(layout lib message recipient theme = Inl e \<longrightarrow>
      create_pdf lib message recipient theme output_path = Inl e) \<and>
   (font_setup lib = None \<and> (\<forall>doc op. draw lib doc op = None) \<and>
    wrap lib (remove_emojis message) = Inr lines \<and> temp_file lib = Inr tmp \<and>
    title_color theme = Inr tc \<and> text_color theme = Inr xc \<longrightarrow>
      (pdf_output lib (full_document tc xc (remove_emojis recipient) lines)
           (output_path_or output_path tmp) = None \<longrightarrow>
         create_pdf lib message recipient theme output_path =
           Inr (output_path_or output_path tmp,
                full_document tc xc (remove_emojis recipient) lines)) \<and>
      (pdf_output lib (full_document tc xc (remove_emojis recipient) lines)
           (output_path_or output_path tmp) \<noteq> None \<and>
       pdf_output lib (minimal_document tc) (output_path_or output_path tmp) = None \<longrightarrow>
         create_pdf lib message recipient theme output_path =
           Inr (output_path_or output_path tmp, minimal_document tc)) \<and>
      (pdf_output lib (full_document tc xc (remove_emojis recipient) lines)
           (output_path_or output_path tmp) \<noteq> None \<and>
       pdf_output lib (minimal_document tc) (output_path_or output_path tmp) = Some e' \<longrightarrow>
         create_pdf lib message recipient theme output_path = Inl e'))"
proof (intro conjI impI)
  assume "layout lib message recipient theme = Inl e"
  then show "create_pdf lib message recipient theme output_path = Inl e"
    by (simp add: create_pdf_def)
next
  assume h: "font_setup lib = None \<and> (\<forall>doc op. draw lib doc op = None) \<and>
    wrap lib (remove_emojis message) = Inr lines \<and> temp_file lib = Inr tmp \<and>
    title_color theme = Inr tc \<and> text_color theme = Inr xc"
  then have l: "layout lib message recipient theme =
           Inr (full_document tc xc (remove_emojis recipient) lines)"
    by (intro layout_ok) blast+
  from h have f: "fallback_layout lib theme = Inr (minimal_document tc)"
    by (intro fallback_layout_ok) blast+
  from h have p: "(case output_path of None \<Rightarrow> temp_file lib
          | Some p \<Rightarrow> if p = [] then temp_file lib else Inr p) = Inr (output_path_or output_path tmp)"
    by (intro path_ok) blast
  note unfold = create_pdf_def l f p
  { assume "pdf_output lib (full_document tc xc (remove_emojis recipient) lines)
           (output_path_or output_path tmp) = None"
    then show "create_pdf lib message recipient theme output_path =
           Inr (output_path_or output_path tmp,
                full_document tc xc (remove_emojis recipient) lines)"
      by (simp add: unfold) }
  { assume "pdf_output lib (full_document tc xc (remove_emojis recipient) lines)
           (output_path_or output_path tmp) \<noteq> None \<and>
       pdf_output lib (minimal_document tc) (output_path_or output_path tmp) = None"
    then show "create_pdf lib message recipient theme output_path =
           Inr (output_path_or output_path tmp, minimal_document tc)"
      by (auto simp: unfold) }
  { assume "pdf_output lib (full_document tc xc (remove_emojis recipient) lines)
           (output_path_or output_path tmp) \<noteq> None \<and>
       pdf_output lib (minimal_document tc) (output_path_or output_path tmp) = Some e'"
    then show "create_pdf lib message recipient theme output_path = Inl e'"
      by (auto simp: unfold) }
qed

theorem create_pdf_fallback_witness:
  "create_pdf
     \<lparr>font_setup = None, draw = (\<lambda>doc op. None),
      wrap = (\<lambda>s. Inr (if s = [] then [] else [s])),
      temp_file = Inr (ascii ''/tmp/tmpcard.pdf''),
      pdf_output = (\<lambda>doc path. if doc = minimal_document (74, 74, 74) then None
                               else Some (Exn OtherException (ascii ''cannot encode'')))\<rparr>
     [0x1F319, 0x2728] (ascii ''Ali'') Map.empty None =
     Inr (ascii ''/tmp/tmpcard.pdf'', minimal_document (74, 74, 74)) \<and>
   create_pdf
     \<lparr>font_setup = None, draw = (\<lambda>doc op. None),
      wrap = (\<lambda>s. Inr (if s = [] then [] else [s])),
      temp_file = Inr (ascii ''/tmp/tmpcard.pdf''),
      pdf_output = (\<lambda>doc path. None)\<rparr>
     (ascii ''Eid Mubarak'') (ascii ''Ali'') Map.empty (Some (ascii ''card.pdf'')) =
     Inr (ascii ''card.pdf'',
          full_document (74, 74, 74) (0, 0, 0) (ascii ''Ali'') [ascii ''Eid Mubarak''])"
proof
  let ?lib = "\<lparr>font_setup = None, draw = (\<lambda>doc op. None),
      wrap = (\<lambda>s. Inr (if s = [] then [] else [s])),
      temp_file = Inr (ascii ''/tmp/tmpcard.pdf''),
      pdf_output = (\<lambda>doc path. if doc = minimal_document (74, 74, 74) then None
                               else Some (Exn OtherException (ascii ''cannot encode'')))\<rparr>"
  let ?ok = "\<lparr>font_setup = None, draw = (\<lambda>doc op. None),
      wrap = (\<lambda>s. Inr (if s = [] then [] else [s])),
      temp_file = Inr (ascii ''/tmp/tmpcard.pdf''),
      pdf_output = (\<lambda>doc path. None)\<rparr>"
  have clean: "remove_emojis [0x1F319, 0x2728] = []" "remove_emojis (ascii ''Ali'') = ascii ''Ali''"
    "remove_emojis (ascii ''Eid Mubarak'') = ascii ''Eid Mubarak''"
    by (simp_all add: remove_emojis_def emoji_pattern_def ascii_def)
  have neq: "full_document (74, 74, 74) (0, 0, 0) (ascii ''Ali'') [] \<noteq> minimal_document (74, 74, 74)"
    by (simp add: full_document_def minimal_document_def)
  have h1: "font_setup ?lib = None \<and> (\<forall>doc op. draw ?lib doc op = None) \<and>
    wrap ?lib (remove_emojis [0x1F319, 0x2728]) = Inr [] \<and>
    temp_file ?lib = Inr (ascii ''/tmp/tmpcard.pdf'') \<and>
    title_color Map.empty = Inr (74, 74, 74) \<and> text_color Map.empty = Inr (0, 0, 0)"
    by (simp add: clean theme_defaults)
  have o1: "pdf_output ?lib (full_document (74, 74, 74) (0, 0, 0) (remove_emojis (ascii ''Ali'')) [])
           (output_path_or None (ascii ''/tmp/tmpcard.pdf'')) \<noteq> None \<and>
       pdf_output ?lib (minimal_document (74, 74, 74)) (output_path_or None (ascii ''/tmp/tmpcard.pdf'')) = None"
    using neq by (simp add: clean)
  from create_pdf_fallback[where lib = ?lib and message = "[0x1F319, 0x2728]" and theme = Map.empty
      and recipient = "ascii ''Ali''" and output_path = None,
      THEN conjunct2, THEN mp, OF h1, THEN conjunct2, THEN conjunct1, THEN mp, OF o1]
  show "create_pdf ?lib [0x1F319, 0x2728] (ascii ''Ali'') Map.empty None =
     Inr (ascii ''/tmp/tmpcard.pdf'', minimal_document (74, 74, 74))"
    by (simp add: output_path_or_def)
  have h2: "font_setup ?ok = None \<and> (\<forall>doc op. draw ?ok doc op = None) \<and>
    wrap ?ok (remove_emojis (ascii ''Eid Mubarak'')) = Inr [ascii ''Eid Mubarak''] \<and>
    temp_file ?ok = Inr (ascii ''/tmp/tmpcard.pdf'') \<and>
    title_color Map.empty = Inr (74, 74, 74) \<and> text_color Map.empty = Inr (0, 0, 0)"
    by (simp add: clean theme_defaults) (simp add: ascii_def)
  have o2: "pdf_output ?ok (full_document (74, 74, 74) (0, 0, 0) (remove_emojis (ascii ''Ali''))
              [ascii ''Eid Mubarak''])
           (output_path_or (Some (ascii ''card.pdf'')) (ascii ''/tmp/tmpcard.pdf'')) = None"
    by simp
  from create_pdf_fallback[where lib = ?ok and message = "ascii ''Eid Mubarak''" and theme = Map.empty
      and recipient = "ascii ''Ali''" and output_path = "Some (ascii ''card.pdf'')",
      THEN conjunct2, THEN mp, OF h2, THEN conjunct1, THEN mp, OF o2]
  show "create_pdf ?ok (ascii ''Eid Mubarak'') (ascii ''Ali'') Map.empty (Some (ascii ''card.pdf'')) =
     Inr (ascii ''card.pdf'',
          full_document (74, 74, 74) (0, 0, 0) (ascii ''Ali'') [ascii ''Eid Mubarak''])"
    by (simp add: output_path_or_def clean) (simp add: ascii_def)
qed

end
